theory Spec2Isabelle
  imports Main
begin

section \<open>Strings\<close>

text \<open>
  A Python \<open>str\<close> is modelled as a \<open>string\<close> whose characters are the code points
  below 256. The character classes below are the ones Python uses on that range.
\<close>

abbreviation TAB :: char where "TAB \<equiv> CHR 0x09"
abbreviation LF :: char where "LF \<equiv> CHR 0x0A"
abbreviation CR :: char where "CR \<equiv> CHR 0x0D"

text \<open>\<open>str.isspace\<close> and the regular expression class \<open>\s\<close> on one character.\<close>

definition is_space :: "char \<Rightarrow> bool" where
  "is_space c \<longleftrightarrow>
     c \<in> {CHR 0x09, CHR 0x0A, CHR 0x0B, CHR 0x0C, CHR 0x0D,
          CHR 0x1C, CHR 0x1D, CHR 0x1E, CHR 0x1F, CHR 0x20, CHR 0x85, CHR 0xA0}"

text \<open>The line boundaries of \<open>str.splitlines\<close>.\<close>

definition is_linebreak :: "char \<Rightarrow> bool" where
  "is_linebreak c \<longleftrightarrow>
     c \<in> {CHR 0x0A, CHR 0x0B, CHR 0x0C, CHR 0x0D, CHR 0x1C, CHR 0x1D, CHR 0x1E, CHR 0x85}"

text \<open>\<open>s.strip(chars)\<close> and \<open>s.strip()\<close>.\<close>

definition strip_chars :: "string \<Rightarrow> string \<Rightarrow> string" where
  "strip_chars chars s =
     rev (dropWhile (\<lambda>c. c \<in> set chars) (rev (dropWhile (\<lambda>c. c \<in> set chars) s)))"

definition strip :: "string \<Rightarrow> string" where
  "strip s = rev (dropWhile is_space (rev (dropWhile is_space s)))"

text \<open>
  \<open>s.splitlines()\<close>: the first argument is the line collected so far. A carriage
  return followed by a line feed is one boundary; a boundary at the very end opens no
  further line.
\<close>

fun splitlines_from :: "string \<Rightarrow> string \<Rightarrow> string list" where
  "splitlines_from cur [] = (if cur = [] then [] else [cur])"
| "splitlines_from cur [c] = (if is_linebreak c then [cur] else [cur @ [c]])"
| "splitlines_from cur (c # d # cs) =
     (if c = CR \<and> d = LF then cur # splitlines_from [] cs
      else if is_linebreak c then cur # splitlines_from [] (d # cs)
      else splitlines_from (cur @ [c]) (d # cs))"

definition splitlines :: "string \<Rightarrow> string list" where
  "splitlines s = splitlines_from [] s"

text \<open>\<open>s.split(sep)\<close> for a separator of one character: empty pieces are kept.\<close>

fun split_on :: "char \<Rightarrow> string \<Rightarrow> string list" where
  "split_on sep [] = [[]]"
| "split_on sep (c # cs) =
     (if c = sep then [] # split_on sep cs
      else (case split_on sep cs of [] \<Rightarrow> [[c]] | p # ps \<Rightarrow> (c # p) # ps))"

text \<open>
  \<open>re.split(r"\s{2,}", s)\<close>: the string is cut at every maximal run of two or more
  whitespace characters; a single whitespace character stays inside its piece.
\<close>

function re_split_ws2_from :: "string \<Rightarrow> string \<Rightarrow> string list" where
  "re_split_ws2_from cur [] = [cur]"
| "re_split_ws2_from cur (c # cs) =
     (if is_space c \<and> takeWhile is_space cs \<noteq> []
      then cur # re_split_ws2_from [] (dropWhile is_space cs)
      else re_split_ws2_from (cur @ [c]) cs)"
  by pat_completeness auto
termination
  by (relation "measure (\<lambda>(cur, s). length s)")
     (auto simp: less_Suc_eq_le length_dropWhile_le)

definition re_split_ws2 :: "string \<Rightarrow> string list" where
  "re_split_ws2 s = re_split_ws2_from [] s"

text \<open>\<open>s.replace("\n", "<br/>")\<close>.\<close>

definition replace_nl :: "string \<Rightarrow> string" where
  "replace_nl s = concat (map (\<lambda>c. if c = LF then ''<br/>'' else [c]) s)"

text \<open>\<open>safe_split_lines\<close>: the stripped lines of a text, blank lines dropped.\<close>

definition safe_split_lines :: "string \<Rightarrow> string list" where
  "safe_split_lines text = map strip (filter (\<lambda>ln. strip ln \<noteq> []) (splitlines text))"

section \<open>Table-text inference\<close>

text \<open>
  Exceptions are values. \<open>csv.Sniffer\<close> and \<open>csv.reader\<close> belong to the standard
  library. The sniffer is a parameter of the model: it either raises or returns a
  dialect. The reader is the library's parsing automaton for the dialect the sniffer
  builds: minimal quoting, no escape character, not strict. It raises when a field grows
  beyond the field size limit. A text argument is a \<open>str\<close>, never \<open>None\<close>.
\<close>

datatype exn = CsvError | TypeError | IndexError | LibraryError

record dialect =
  delimiter :: char
  quotechar :: char
  doublequote :: bool
  skipinitialspace :: bool

datatype parser_state =
  START_RECORD | START_FIELD | IN_FIELD | IN_QUOTED_FIELD | QUOTE_IN_QUOTED_FIELD | EAT_CRNL

record reader =
  rd_fields :: "string list"
  rd_field :: string
  rd_state :: parser_state

definition field_limit :: nat where
  "field_limit = 131072"

definition parse_reset :: reader where
  "parse_reset = \<lparr>rd_fields = [], rd_field = [], rd_state = START_RECORD\<rparr>"

definition parse_save_field :: "reader \<Rightarrow> reader" where
  "parse_save_field rd = rd\<lparr>rd_fields := rd_fields rd @ [rd_field rd], rd_field := []\<rparr>"

definition parse_add_char :: "reader \<Rightarrow> char \<Rightarrow> exn + reader" where
  "parse_add_char rd c =
     (if length (rd_field rd) \<ge> field_limit then Inl CsvError
      else Inr (rd\<lparr>rd_field := rd_field rd @ [c]\<rparr>))"

text \<open>The end of a line is the input \<open>None\<close>.\<close>

definition start_field :: "dialect \<Rightarrow> reader \<Rightarrow> char option \<Rightarrow> exn + reader" where
  "start_field d rd i =
     (case i of
        None \<Rightarrow> Inr ((parse_save_field rd)\<lparr>rd_state := START_RECORD\<rparr>)
      | Some c \<Rightarrow>
          if c = LF \<or> c = CR then Inr ((parse_save_field rd)\<lparr>rd_state := EAT_CRNL\<rparr>)
          else if c = quotechar d then Inr (rd\<lparr>rd_state := IN_QUOTED_FIELD\<rparr>)
          else if c = CHR '' '' \<and> skipinitialspace d then Inr rd
          else if c = delimiter d then Inr (parse_save_field rd)
          else (case parse_add_char rd c of
                  Inl e \<Rightarrow> Inl e
                | Inr rd' \<Rightarrow> Inr (rd'\<lparr>rd_state := IN_FIELD\<rparr>)))"

definition parse_process_char :: "dialect \<Rightarrow> reader \<Rightarrow> char option \<Rightarrow> exn + reader" where
  "parse_process_char d rd i =
     (case rd_state rd of
        START_RECORD \<Rightarrow>
          (case i of
             None \<Rightarrow> Inr rd
           | Some c \<Rightarrow>
               if c = LF \<or> c = CR then Inr (rd\<lparr>rd_state := EAT_CRNL\<rparr>)
               else start_field d (rd\<lparr>rd_state := START_FIELD\<rparr>) i)
      | START_FIELD \<Rightarrow> start_field d rd i
      | IN_FIELD \<Rightarrow>
          (case i of
             None \<Rightarrow> Inr ((parse_save_field rd)\<lparr>rd_state := START_RECORD\<rparr>)
           | Some c \<Rightarrow>
               if c = LF \<or> c = CR then Inr ((parse_save_field rd)\<lparr>rd_state := EAT_CRNL\<rparr>)
               else if c = delimiter d then Inr ((parse_save_field rd)\<lparr>rd_state := START_FIELD\<rparr>)
               else parse_add_char rd c)
      | IN_QUOTED_FIELD \<Rightarrow>
          (case i of
             None \<Rightarrow> Inr rd
           | Some c \<Rightarrow>
               if c = quotechar d
               then (if doublequote d then Inr (rd\<lparr>rd_state := QUOTE_IN_QUOTED_FIELD\<rparr>)
                     else Inr (rd\<lparr>rd_state := IN_FIELD\<rparr>))
               else parse_add_char rd c)
      | QUOTE_IN_QUOTED_FIELD \<Rightarrow>
          (case i of
             None \<Rightarrow> Inr ((parse_save_field rd)\<lparr>rd_state := START_RECORD\<rparr>)
           | Some c \<Rightarrow>
               if c = quotechar d
               then (case parse_add_char rd c of
                       Inl e \<Rightarrow> Inl e
                     | Inr rd' \<Rightarrow> Inr (rd'\<lparr>rd_state := IN_QUOTED_FIELD\<rparr>))
               else if c = delimiter d then Inr ((parse_save_field rd)\<lparr>rd_state := START_FIELD\<rparr>)
               else if c = LF \<or> c = CR then Inr ((parse_save_field rd)\<lparr>rd_state := EAT_CRNL\<rparr>)
               else (case parse_add_char rd c of
                       Inl e \<Rightarrow> Inl e
                     | Inr rd' \<Rightarrow> Inr (rd'\<lparr>rd_state := IN_FIELD\<rparr>)))
      | EAT_CRNL \<Rightarrow>
          (case i of
             None \<Rightarrow> Inr (rd\<lparr>rd_state := START_RECORD\<rparr>)
           | Some c \<Rightarrow> if c = LF \<or> c = CR then Inr rd else Inl CsvError))"

text \<open>One line is fed character by character, then the end of the line.\<close>

fun feed_line :: "dialect \<Rightarrow> reader \<Rightarrow> string \<Rightarrow> exn + reader" where
  "feed_line d rd [] = parse_process_char d rd None"
| "feed_line d rd (c # cs) =
     (case parse_process_char d rd (Some c) of
        Inl e \<Rightarrow> Inl e
      | Inr rd' \<Rightarrow> feed_line d rd' cs)"

text \<open>
  \<open>list(csv.reader(lines, dialect))\<close>. A record is complete when the automaton is
  back in \<open>START_RECORD\<close> at the end of a line; a quoted field left open continues on
  the next line. When the lines run out inside a record with a pending field, that
  record is still returned.
\<close>

fun csv_reader :: "dialect \<Rightarrow> reader \<Rightarrow> string list \<Rightarrow> exn + string list list" where
  "csv_reader d rd [] =
     (if rd_field rd \<noteq> [] \<or> rd_state rd = IN_QUOTED_FIELD
      then Inr [rd_fields (parse_save_field rd)] else Inr [])"
| "csv_reader d rd (ln # lns) =
     (case feed_line d rd ln of
        Inl e \<Rightarrow> Inl e
      | Inr rd' \<Rightarrow>
          if rd_state rd' = START_RECORD
          then (case csv_reader d parse_reset lns of
                  Inl e \<Rightarrow> Inl e
                | Inr rows \<Rightarrow> Inr (rd_fields rd' # rows))
          else csv_reader d rd' lns)"

text \<open>
  The body of the \<open>try\<close> block of \<open>parse_table_text\<close>: \<open>Inl\<close> when it raises,
  \<open>Inr (Some rows)\<close> when it returns, \<open>Inr None\<close> when it ends without returning.
\<close>

definition sniff_rows :: "(string \<Rightarrow> exn + dialect) \<Rightarrow> string \<Rightarrow> exn + string list list option" where
  "sniff_rows sniff txt =
     (case sniff txt of
        Inl e \<Rightarrow> Inl e
      | Inr d \<Rightarrow>
          (case csv_reader d parse_reset (splitlines txt) of
             Inl e \<Rightarrow> Inl e
           | Inr rows \<Rightarrow>
               if rows \<noteq> [] \<and> list_ex (\<lambda>r. length r > 1) rows
               then Inr (Some (map (map strip) rows))
               else Inr None))"

definition split_ws_row :: "string \<Rightarrow> string list" where
  "split_ws_row ln =
     (let parts = filter (\<lambda>p. p \<noteq> []) (re_split_ws2 (strip ln))
      in if parts \<noteq> [] then parts else [strip ln])"

text \<open>
  \<open>parse_table_text\<close>. The \<open>except Exception: pass\<close> clause turns a raising \<open>try\<close>
  block into the fall-through to the tab and whitespace strategies.
\<close>

definition parse_table_text :: "(string \<Rightarrow> exn + dialect) \<Rightarrow> string \<Rightarrow> exn + string list list" where
  "parse_table_text sniff text =
     (let txt = strip_chars [LF] text in
      if txt = [] then Inr []
      else (case sniff_rows sniff txt of
              Inr (Some rows) \<Rightarrow> Inr rows
            | _ \<Rightarrow>
                if TAB \<in> set txt
                then Inr (map (\<lambda>ln. map strip (split_on TAB ln)) (splitlines txt))
                else Inr (map split_ws_row (splitlines txt))))"

text \<open>
  What the code relies on from the sniffer it calls with \<open>delimiters="\t,;"\<close>: an
  outcome is an exception, or a dialect whose delimiter is one of the three candidates
  and whose quote character is a double or a single quote.
\<close>

definition sniffed_ok :: "exn + dialect \<Rightarrow> bool" where
  "sniffed_ok r =
     (case r of
        Inl e \<Rightarrow> True
      | Inr d \<Rightarrow> delimiter d \<in> set [TAB, CHR '','', CHR '';'']
                 \<and> quotechar d \<in> set [CHR 0x22, CHR 0x27])"

text \<open>A string has a run of two or more whitespace characters.\<close>

fun has_ws_run :: "string \<Rightarrow> bool" where
  "has_ws_run [] = False"
| "has_ws_run [c] = False"
| "has_ws_run (c # d # cs) = ((is_space c \<and> is_space d) \<or> has_ws_run (d # cs))"

text \<open>
  A line that the reader returns as one field: it starts an unquoted field and has no
  delimiter and no line break in it.
\<close>

definition single_field_line :: "dialect \<Rightarrow> string \<Rightarrow> bool" where
  "single_field_line d ln \<longleftrightarrow>
     ln \<noteq> [] \<and> hd ln \<noteq> quotechar d \<and> \<not> (hd ln = CHR '' '' \<and> skipinitialspace d) \<and>
     delimiter d \<notin> set ln \<and> LF \<notin> set ln \<and> CR \<notin> set ln \<and> length ln \<le> field_limit"


section \<open>Report data model\<close>

definition DOCX_TABLE_STYLES :: "string list" where
  "DOCX_TABLE_STYLES =
     [''Table Grid'', ''Light List'', ''Light List Accent 1'', ''Light Grid'',
      ''Light Grid Accent 1'', ''Medium Grid 1'', ''Medium Grid 1 Accent 1'',
      ''Medium Shading 1'', ''Medium Shading 1 Accent 1'']"

definition TRIAL_LAYOUTS :: "string list" where
  "TRIAL_LAYOUTS = [''Even columns'', ''Reasons wide'', ''Compact'']"

record TrialRow =
  number :: string
  issue :: string
  reasons :: string

text \<open>\<open>image_path\<close> is \<open>Optional[str]\<close>: \<open>None\<close> is Python's \<open>None\<close>.\<close>

record ResultItem =
  title :: string
  kind :: string
  content :: string
  image_path :: "string option"
  images :: "string list"
  caption :: string
  table_data :: "string list list"
  table_style :: string

record EmailEntry =
  date :: string
  customer :: string
  correspondence :: string

record ReportModel =
  project_title :: string
  start_date :: string
  report_date :: string
  assigned_by :: string
  bin_no :: string
  researcher_name :: string
  total_hours :: string
  plain_summary :: string
  objectives :: "string list"
  methods_raw_materials :: "string list"
  methods_instruments :: "string list"
  methods_procedure :: "string list"
  trial_history :: "TrialRow list"
  trial_layout :: string
  trial_docx_style :: string
  results :: "ResultItem list"
  conclusion :: "string list"
  miscellaneous :: string
  references :: "string list"
  regulations :: string
  label_req :: string
  certification_req :: string
  manuf_order_steps :: "string list"
  formulation_risk_text :: string
  hazards_text :: string
  equipment_text :: string
  capex_text :: string
  safety_assess_text :: string
  raw_material_sourcing :: string
  lims_setup :: string
  stability_testing :: string
  packaging_compatibility :: string
  c_obj_problem :: string
  smart_goals :: "string \<rightharpoonup> string"
  c_specs :: string
  c_expected_volume :: string
  c_packaging_req :: string
  c_raw_material_prefs :: string
  c_sample_needed :: string
  c_opportunity_timeline :: string
  target_application :: string
  customer_feedback :: string
  tds_development :: string
  email_correspondence :: "EmailEntry list"

definition default_smart_goals :: "string \<rightharpoonup> string" where
  "default_smart_goals = [''S'' \<mapsto> [], ''M'' \<mapsto> [], ''A'' \<mapsto> [], ''R'' \<mapsto> [], ''T'' \<mapsto> []]"


text \<open>\<open>ReportModel()\<close>: every field at its declared default.\<close>

definition ReportModel_default :: ReportModel where
  "ReportModel_default =
     \<lparr>project_title = [],
       start_date = [],
       report_date = [],
       assigned_by = [],
       bin_no = [],
       researcher_name = [],
       total_hours = [],
       plain_summary = [],
       objectives = [],
       methods_raw_materials = [],
       methods_instruments = [],
       methods_procedure = [],
       trial_history = [],
       trial_layout = TRIAL_LAYOUTS ! 0,
       trial_docx_style = DOCX_TABLE_STYLES ! 0,
       results = [],
       conclusion = [],
       miscellaneous = [],
       references = [],
       regulations = [],
       label_req = [],
       certification_req = [],
       manuf_order_steps = [],
       formulation_risk_text = [],
       hazards_text = [],
       equipment_text = [],
       capex_text = [],
       safety_assess_text = [],
       raw_material_sourcing = [],
       lims_setup = [],
       stability_testing = [],
       packaging_compatibility = [],
       c_obj_problem = [],
       smart_goals = default_smart_goals,
       c_specs = [],
       c_expected_volume = [],
       c_packaging_req = [],
       c_raw_material_prefs = [],
       c_sample_needed = [],
       c_opportunity_timeline = [],
       target_application = [],
       customer_feedback = [],
       tds_development = [],
       email_correspondence = []\<rparr>"

section \<open>Persistence\<close>

text \<open>
  The persisted structure is JSON. A dictionary is modelled by the keys the program
  reads, each holding a value of the type the program writes there; an absent key is
  \<open>None\<close>. The scalar keys of \<open>report_model\<close> are one map from key to string and its
  list keys one map from key to list. \<open>image_path\<close> may also hold JSON \<open>null\<close>, the
  inner \<open>None\<close>.
\<close>

record trial_dict =
  td_number :: "string option"
  td_issue :: "string option"
  td_reasons :: "string option"

record email_dict =
  ed_date :: "string option"
  ed_customer :: "string option"
  ed_correspondence :: "string option"

record result_dict =
  ri_title :: "string option"
  ri_kind :: "string option"
  ri_content :: "string option"
  ri_image_path :: "string option option"
  ri_images :: "string list option"
  ri_caption :: "string option"
  ri_table_data :: "string list list option"
  ri_table_style :: "string option"

record rm_dict =
  rm_strs :: "string \<rightharpoonup> string"
  rm_lists :: "string \<rightharpoonup> string list"
  rm_trial_history :: "trial_dict list option"
  rm_results :: "result_dict list option"
  rm_smart_goals :: "(string \<rightharpoonup> string) option"
  rm_email_correspondence :: "email_dict list option"

record data_dict =
  d_report_model :: "rm_dict option"
  d_branding :: "(string \<rightharpoonup> string) option"
  d_export :: "(string \<rightharpoonup> string) option"
  d_include :: "(string \<rightharpoonup> bool) option"

text \<open>The variables of the form that persistence reads and writes besides the model.\<close>

record ui_vars =
  header_path_var :: string
  footer_path_var :: string
  logo_path_var :: string
  out_dir_var :: string
  export_fmt :: string
  include_vars :: "string \<Rightarrow> bool"

definition include_state_keys :: "string list" where
  "include_state_keys =
     [''sec_general'', ''t_plain'', ''t_objectives'', ''t_methods'', ''t_rm'', ''t_ins'', ''t_proc'',
      ''t_trial'', ''t_results'', ''t_conc'', ''t_misc'', ''t_refs'',
      ''sec_reg'', ''sec_scale'', ''sec_quality'', ''sec_commercial'']"

text \<open>\<open>asdict\<close> on the three row classes and on the model.\<close>

definition asdict_TrialRow :: "TrialRow \<Rightarrow> trial_dict" where
  "asdict_TrialRow tr =
     \<lparr>td_number = Some (number tr), td_issue = Some (issue tr), td_reasons = Some (reasons tr)\<rparr>"

definition asdict_EmailEntry :: "EmailEntry \<Rightarrow> email_dict" where
  "asdict_EmailEntry e =
     \<lparr>ed_date = Some (date e), ed_customer = Some (customer e),
      ed_correspondence = Some (correspondence e)\<rparr>"

definition asdict_ResultItem :: "ResultItem \<Rightarrow> result_dict" where
  "asdict_ResultItem res =
     \<lparr>ri_title = Some (title res), ri_kind = Some (kind res), ri_content = Some (content res),
      ri_image_path = Some (image_path res), ri_images = Some (images res),
      ri_caption = Some (caption res), ri_table_data = Some (table_data res),
      ri_table_style = Some (table_style res)\<rparr>"

definition asdict_ReportModel :: "ReportModel \<Rightarrow> rm_dict" where
  "asdict_ReportModel r =
     \<lparr>rm_strs = map_of
         [(''project_title'', project_title r),
          (''start_date'', start_date r),
          (''report_date'', report_date r),
          (''assigned_by'', assigned_by r),
          (''bin_no'', bin_no r),
          (''researcher_name'', researcher_name r),
          (''total_hours'', total_hours r),
          (''plain_summary'', plain_summary r),
          (''trial_layout'', trial_layout r),
          (''trial_docx_style'', trial_docx_style r),
          (''miscellaneous'', miscellaneous r),
          (''regulations'', regulations r),
          (''label_req'', label_req r),
          (''certification_req'', certification_req r),
          (''formulation_risk_text'', formulation_risk_text r),
          (''hazards_text'', hazards_text r),
          (''equipment_text'', equipment_text r),
          (''capex_text'', capex_text r),
          (''safety_assess_text'', safety_assess_text r),
          (''raw_material_sourcing'', raw_material_sourcing r),
          (''lims_setup'', lims_setup r),
          (''stability_testing'', stability_testing r),
          (''packaging_compatibility'', packaging_compatibility r),
          (''c_obj_problem'', c_obj_problem r),
          (''c_specs'', c_specs r),
          (''c_expected_volume'', c_expected_volume r),
          (''c_packaging_req'', c_packaging_req r),
          (''c_raw_material_prefs'', c_raw_material_prefs r),
          (''c_sample_needed'', c_sample_needed r),
          (''c_opportunity_timeline'', c_opportunity_timeline r),
          (''target_application'', target_application r),
          (''customer_feedback'', customer_feedback r),
          (''tds_development'', tds_development r)],
      rm_lists = map_of
         [(''objectives'', objectives r),
          (''methods_raw_materials'', methods_raw_materials r),
          (''methods_instruments'', methods_instruments r),
          (''methods_procedure'', methods_procedure r),
          (''conclusion'', conclusion r),
          (''references'', references r),
          (''manuf_order_steps'', manuf_order_steps r)],
      rm_trial_history = Some (map asdict_TrialRow (trial_history r)),
      rm_results = Some (map asdict_ResultItem (results r)),
      rm_smart_goals = Some (smart_goals r),
      rm_email_correspondence = Some (map asdict_EmailEntry (email_correspondence r))\<rparr>"

text \<open>\<open>_to_dict\<close>, on the model that \<open>_collect\<close> returned.\<close>

definition to_dict :: "ui_vars \<Rightarrow> ReportModel \<Rightarrow> data_dict" where
  "to_dict ui r =
     \<lparr>d_report_model = Some (asdict_ReportModel r),
      d_branding = Some [''header_path'' \<mapsto> header_path_var ui,
                         ''footer_path'' \<mapsto> footer_path_var ui,
                         ''logo_path'' \<mapsto> logo_path_var ui],
      d_export = Some [''out_dir'' \<mapsto> out_dir_var ui, ''format'' \<mapsto> export_fmt ui],
      d_include = Some (\<lambda>k. if k \<in> set include_state_keys then Some (include_vars ui k) else None)\<rparr>"

text \<open>
  The keyword constructors \<open>TrialRow(**th)\<close>, \<open>EmailEntry(**e)\<close> and
  \<open>ResultItem(**ri)\<close>: a field without a default that is missing raises \<open>TypeError\<close>;
  a missing field with a default takes it.
\<close>

definition TrialRow_init :: "trial_dict \<Rightarrow> exn + TrialRow" where
  "TrialRow_init th =
     (case (td_number th, td_issue th, td_reasons th) of
        (Some n, Some i, Some rs) \<Rightarrow> Inr \<lparr>number = n, issue = i, reasons = rs\<rparr>
      | _ \<Rightarrow> Inl TypeError)"

definition EmailEntry_init :: "email_dict \<Rightarrow> exn + EmailEntry" where
  "EmailEntry_init e =
     (case (ed_date e, ed_customer e, ed_correspondence e) of
        (Some d, Some c, Some t) \<Rightarrow> Inr \<lparr>date = d, customer = c, correspondence = t\<rparr>
      | _ \<Rightarrow> Inl TypeError)"

definition or_default :: "'a option \<Rightarrow> 'a \<Rightarrow> 'a" where
  "or_default v dflt = (case v of None \<Rightarrow> dflt | Some x \<Rightarrow> x)"

definition ResultItem_init :: "result_dict \<Rightarrow> exn + ResultItem" where
  "ResultItem_init ri =
     (case (ri_title ri, ri_kind ri) of
        (Some t, Some k) \<Rightarrow>
          Inr \<lparr>title = t, kind = k,
               content = or_default (ri_content ri) [],
               image_path = or_default (ri_image_path ri) None,
               images = or_default (ri_images ri) [],
               caption = or_default (ri_caption ri) [],
               table_data = or_default (ri_table_data ri) [],
               table_style = or_default (ri_table_style ri) ''Table Grid''\<rparr>
      | _ \<Rightarrow> Inl TypeError)"

text \<open>A list comprehension over a constructor that may raise: the first exception wins.\<close>

fun traverse :: "('a \<Rightarrow> exn + 'b) \<Rightarrow> 'a list \<Rightarrow> exn + 'b list" where
  "traverse f [] = Inr []"
| "traverse f (x # xs) =
     (case f x of
        Inl e \<Rightarrow> Inl e
      | Inr y \<Rightarrow> (case traverse f xs of Inl e \<Rightarrow> Inl e | Inr ys \<Rightarrow> Inr (y # ys)))"

text \<open>\<open>rm.get(k, dflt)\<close> on a scalar key and \<open>list(rm.get(k, []))\<close> on a list key.\<close>

definition get_str :: "rm_dict \<Rightarrow> string \<Rightarrow> string \<Rightarrow> string" where
  "get_str rm k dflt = or_default (rm_strs rm k) dflt"

definition get_list :: "rm_dict \<Rightarrow> string \<Rightarrow> string list" where
  "get_list rm k = or_default (rm_lists rm k) []"

text \<open>
  The first loop of \<open>_load_from_dict\<close>, on one result dictionary: a dictionary without
  the key \<open>images\<close> gets it, from a truthy \<open>image_path\<close> if there is one.
\<close>

definition images_backcompat :: "result_dict \<Rightarrow> result_dict" where
  "images_backcompat ri =
     (if ri_images ri = None
      then (case ri_image_path ri of
              Some (Some p) \<Rightarrow> if p \<noteq> [] then ri\<lparr>ri_images := Some [p]\<rparr>
                                else ri\<lparr>ri_images := Some []\<rparr>
            | _ \<Rightarrow> ri\<lparr>ri_images := Some []\<rparr>)
      else ri)"

text \<open>The manufacturing-order steps that \<open>_load_from_dict\<close> computes before building the model.\<close>

definition mo_steps :: "rm_dict \<Rightarrow> string list" where
  "mo_steps rm =
     (if get_list rm ''manuf_order_steps'' = [] \<and> get_str rm ''manuf_order_text'' [] \<noteq> []
      then safe_split_lines (get_str rm ''manuf_order_text'' [])
      else get_list rm ''manuf_order_steps'')"

definition empty_rm :: rm_dict where
  "empty_rm =
     \<lparr>rm_strs = Map.empty, rm_lists = Map.empty, rm_trial_history = None, rm_results = None,
      rm_smart_goals = None, rm_email_correspondence = None\<rparr>"

text \<open>
  The call \<open>ReportModel(...)\<close> in \<open>_load_from_dict\<close>, given the rows already built:
  every key is read with its default.
\<close>

definition build_model ::
  "rm_dict \<Rightarrow> TrialRow list \<Rightarrow> ResultItem list \<Rightarrow> EmailEntry list \<Rightarrow> ReportModel" where
  "build_model rm ths ris es =
     \<lparr>project_title = get_str rm ''project_title'' [],
      start_date = get_str rm ''start_date'' [],
      report_date = get_str rm ''report_date'' [],
      assigned_by = get_str rm ''assigned_by'' [],
      bin_no = get_str rm ''bin_no'' [],
      researcher_name = get_str rm ''researcher_name'' [],
      total_hours = get_str rm ''total_hours'' [],
      plain_summary = get_str rm ''plain_summary'' [],
      objectives = get_list rm ''objectives'',
      methods_raw_materials = get_list rm ''methods_raw_materials'',
      methods_instruments = get_list rm ''methods_instruments'',
      methods_procedure = get_list rm ''methods_procedure'',
      trial_history = ths,
      trial_layout = get_str rm ''trial_layout'' (TRIAL_LAYOUTS ! 0),
      trial_docx_style = get_str rm ''trial_docx_style'' (DOCX_TABLE_STYLES ! 0),
      results = ris,
      conclusion = get_list rm ''conclusion'',
      miscellaneous = get_str rm ''miscellaneous'' [],
      references = get_list rm ''references'',
      regulations = get_str rm ''regulations'' [],
      label_req = get_str rm ''label_req'' [],
      certification_req = get_str rm ''certification_req'' [],
      manuf_order_steps = mo_steps rm,
      formulation_risk_text = get_str rm ''formulation_risk_text'' [],
      hazards_text = get_str rm ''hazards_text'' [],
      equipment_text = get_str rm ''equipment_text'' [],
      capex_text = get_str rm ''capex_text'' [],
      safety_assess_text = get_str rm ''safety_assess_text'' [],
      raw_material_sourcing = get_str rm ''raw_material_sourcing'' [],
      lims_setup = get_str rm ''lims_setup'' [],
      stability_testing = get_str rm ''stability_testing'' [],
      packaging_compatibility = get_str rm ''packaging_compatibility'' [],
      c_obj_problem = get_str rm ''c_obj_problem'' [],
      smart_goals = (case rm_smart_goals rm of None \<Rightarrow> default_smart_goals | Some g \<Rightarrow> g),
      c_specs = get_str rm ''c_specs'' [],
      c_expected_volume = get_str rm ''c_expected_volume'' [],
      c_packaging_req = get_str rm ''c_packaging_req'' [],
      c_raw_material_prefs = get_str rm ''c_raw_material_prefs'' [],
      c_sample_needed = get_str rm ''c_sample_needed'' [],
      c_opportunity_timeline = get_str rm ''c_opportunity_timeline'' [],
      target_application = get_str rm ''target_application'' [],
      customer_feedback = get_str rm ''customer_feedback'' [],
      tds_development = get_str rm ''tds_development'' [],
      email_correspondence = es\<rparr>"

text \<open>The construction of the \<open>ReportModel\<close> in \<open>_load_from_dict\<close>, from \<open>rm\<close>.\<close>

definition load_report_model :: "rm_dict \<Rightarrow> exn + ReportModel" where
  "load_report_model rm =
     (let results_in = map images_backcompat (or_default (rm_results rm) []);
          emails_in = or_default (rm_email_correspondence rm) []
      in case traverse TrialRow_init (or_default (rm_trial_history rm) []) of
           Inl e \<Rightarrow> Inl e
         | Inr ths \<Rightarrow>
        (case traverse ResultItem_init results_in of
           Inl e \<Rightarrow> Inl e
         | Inr ris \<Rightarrow>
        (case traverse EmailEntry_init emails_in of
           Inl e \<Rightarrow> Inl e
         | Inr es \<Rightarrow> Inr (build_model rm ths ris es))))"

text \<open>
  \<open>_load_from_dict\<close>: the model it builds and the form variables it sets. An exception
  is caught and reported, and can only arise while the model is built, before anything
  is set; the result is then \<open>Inl\<close>.
\<close>

definition load_from_dict :: "ui_vars \<Rightarrow> data_dict \<Rightarrow> exn + ReportModel \<times> ui_vars" where
  "load_from_dict ui data =
     (case load_report_model (or_default (d_report_model data) empty_rm) of
        Inl e \<Rightarrow> Inl e
      | Inr r \<Rightarrow>
          (let b = or_default (d_branding data) Map.empty;
               e = or_default (d_export data) Map.empty;
               inc = or_default (d_include data) Map.empty
           in Inr (r, ui\<lparr>header_path_var := or_default (b ''header_path'') (header_path_var ui),
                          footer_path_var := or_default (b ''footer_path'') (footer_path_var ui),
                          logo_path_var := or_default (b ''logo_path'') (logo_path_var ui),
                          out_dir_var := or_default (e ''out_dir'') (out_dir_var ui),
                          export_fmt := or_default (e ''format'') (export_fmt ui),
                          include_vars := (\<lambda>k. if k \<in> set include_state_keys
                                                then or_default (inc k) (include_vars ui k)
                                                else include_vars ui k)\<rparr>)))"


section \<open>Rendering\<close>

text \<open>
  What a renderer needs from outside the program: whether a path is a readable file,
  whether the document library can insert the picture at a path, and whether it knows a
  table style name.
\<close>

record render_env =
  isfile :: "string \<Rightarrow> bool"
  add_picture_ok :: "string \<Rightarrow> bool"
  known_style :: "string \<Rightarrow> bool"

text \<open>The decimal numeral of a natural number, as an f-string prints it.\<close>

definition digit_char :: "nat \<Rightarrow> char" where
  "digit_char n = ''0123456789'' ! n"

function str_nat :: "nat \<Rightarrow> string" where
  "str_nat n = (if n < 10 then [digit_char n] else str_nat (n div 10) @ [digit_char (n mod 10)])"
  by pat_completeness auto
termination
  by (relation "measure id") auto

declare str_nat.simps [simp del]

text \<open>
  The rows of a table item: the cached \<open>table_data\<close>, or the rows inferred from
  \<open>content\<close> when the cache is empty. \<open>parse_table_text\<close> returns on every input.
\<close>

definition table_rows :: "(string \<Rightarrow> exn + dialect) \<Rightarrow> ResultItem \<Rightarrow> string list list" where
  "table_rows sniff it =
     (if table_data it \<noteq> [] then table_data it else projr (parse_table_text sniff (content it)))"

text \<open>The paths of an image item: \<open>images\<close>, or the legacy \<open>image_path\<close> alone.\<close>

definition item_images :: "ResultItem \<Rightarrow> string list" where
  "item_images it =
     (if images it \<noteq> [] then images it
      else (case image_path it of
              None \<Rightarrow> []
            | Some p \<Rightarrow> if p \<noteq> [] then [p] else []))"

definition max_len :: "'a list list \<Rightarrow> nat" where
  "max_len rows = foldr max (map length rows) 0"

subsection \<open>Flow document\<close>

text \<open>
  The body of the document, in the order the elements are added. The header and footer
  bands and the page-number field sit outside the body and are not part of it.
\<close>

datatype docx_el =
    TitlePara string
  | Heading nat string
  | BodyPara string nat
  | ListPara string bool nat
  | DocxTable "string option" "string list list"
  | Picture string
  | CaptionPara string

definition H1 :: "string \<Rightarrow> docx_el" where "H1 t = Heading 1 t"
definition H2 :: "string \<Rightarrow> docx_el" where "H2 t = Heading 2 t"
definition H3 :: "string \<Rightarrow> docx_el" where "H3 t = Heading 3 t"

definition body_para :: "string \<Rightarrow> nat \<Rightarrow> docx_el" where
  "body_para t level = BodyPara t level"

definition list_para :: "string \<Rightarrow> bool \<Rightarrow> nat \<Rightarrow> docx_el" where
  "list_para t numbered level = ListPara t numbered level"

text \<open>\<open>tb.style = name\<close>, with \<open>"Table Grid"\<close> when the assignment raises.\<close>

definition style_or_grid :: "render_env \<Rightarrow> string \<Rightarrow> string option" where
  "style_or_grid env name = Some (if known_style env name then name else ''Table Grid'')"

text \<open>The cells of the grid the flow document fills: short rows are padded.\<close>

definition docx_grid :: "string list list \<Rightarrow> string list list" where
  "docx_grid data =
     map (\<lambda>row. map (\<lambda>c_i. if c_i < length row then row ! c_i else []) [0..<max_len data]) data"

definition docx_general :: "(string \<Rightarrow> bool) \<Rightarrow> ReportModel \<Rightarrow> docx_el list" where
  "docx_general inc r =
     (if inc ''sec_general''
      then [H1 (LF # ''1. General Information''),
            DocxTable None
              [[''Start Date'', start_date r],
               [''Report Date'', report_date r],
               [''Assigned By'', assigned_by r],
               [''Bin No'', bin_no r],
               [''Researcher Name'', researcher_name r],
               [''Total Hours'', total_hours r]]]
      else [])"

definition docx_plain :: "(string \<Rightarrow> bool) \<Rightarrow> ReportModel \<Rightarrow> docx_el list" where
  "docx_plain inc r =
     (if inc ''t_plain''
      then [H2 ''2.1. Plain Language Summary'', body_para (plain_summary r) 2]
      else [])"

definition docx_objectives :: "(string \<Rightarrow> bool) \<Rightarrow> ReportModel \<Rightarrow> docx_el list" where
  "docx_objectives inc r =
     (if inc ''t_objectives''
      then H2 ''2.2. Objectives'' # map (\<lambda>it. list_para it True 2) (objectives r)
      else [])"

definition docx_trial :: "render_env \<Rightarrow> ReportModel \<Rightarrow> docx_el list" where
  "docx_trial env r =
     H3 ''2.3.4. Trial History'' #
     (if trial_history r \<noteq> []
      then [DocxTable (style_or_grid env (trial_docx_style r))
              ([''Trial#'', ''Issue'', ''Possible Reasons''] #
               map (\<lambda>tr. [number tr, issue tr, reasons tr]) (trial_history r))]
      else [])"

definition docx_methods :: "render_env \<Rightarrow> (string \<Rightarrow> bool) \<Rightarrow> ReportModel \<Rightarrow> docx_el list" where
  "docx_methods env inc r =
     (if inc ''t_methods''
      then H2 ''2.3. Methods'' #
           (if inc ''t_rm''
            then H3 ''2.3.1. Raw Materials'' # map (\<lambda>x. list_para x False 3) (methods_raw_materials r)
            else []) @
           (if inc ''t_ins''
            then H3 ''2.3.2. Instrument'' # map (\<lambda>x. list_para x False 3) (methods_instruments r)
            else []) @
           (if inc ''t_proc''
            then H3 ''2.3.3. Experimental Procedure'' # map (\<lambda>x. list_para x False 3) (methods_procedure r)
            else []) @
           (if inc ''t_trial'' then docx_trial env r else [])
      else [])"

text \<open>One path of an image item: the picture, and the caption below it if there is one.\<close>

definition docx_image :: "render_env \<Rightarrow> ResultItem \<Rightarrow> string \<Rightarrow> docx_el list" where
  "docx_image env it pth =
     (if pth \<noteq> [] \<and> isfile env pth
      then (if add_picture_ok env pth
            then Picture pth # (if caption it \<noteq> [] then [CaptionPara (caption it)] else [])
            else [])
      else [])"

text \<open>One result item, with its number in the enumeration of all items.\<close>

definition docx_result_item ::
  "render_env \<Rightarrow> (string \<Rightarrow> exn + dialect) \<Rightarrow> nat \<Rightarrow> ResultItem \<Rightarrow> docx_el list" where
  "docx_result_item env sniff idx it =
     (if kind it = ''text''
      then H3 (''2.4.'' @ str_nat idx @ ''. '' @ title it) #
           map (\<lambda>line. body_para line 3) (safe_split_lines (content it))
      else if kind it = ''table''
      then H3 (title it) #
           (if table_rows sniff it \<noteq> []
            then [DocxTable (style_or_grid env (table_style it)) (docx_grid (table_rows sniff it))]
            else [])
      else if kind it = ''image''
      then (if item_images it \<noteq> []
            then (if title it \<noteq> [] then [H3 (title it)] else []) @
                 concat (map (docx_image env it) (item_images it))
            else [])
      else [])"

fun docx_result_items ::
  "render_env \<Rightarrow> (string \<Rightarrow> exn + dialect) \<Rightarrow> nat \<Rightarrow> ResultItem list \<Rightarrow> docx_el list" where
  "docx_result_items env sniff idx [] = []"
| "docx_result_items env sniff idx (it # its) =
     docx_result_item env sniff idx it @ docx_result_items env sniff (Suc idx) its"

definition docx_results ::
  "render_env \<Rightarrow> (string \<Rightarrow> exn + dialect) \<Rightarrow> (string \<Rightarrow> bool) \<Rightarrow> ReportModel \<Rightarrow> docx_el list" where
  "docx_results env sniff inc r =
     (if inc ''t_results''
      then H2 ''2.4. Results'' # docx_result_items env sniff 1 (results r)
      else [])"

definition docx_conclusion :: "(string \<Rightarrow> bool) \<Rightarrow> ReportModel \<Rightarrow> docx_el list" where
  "docx_conclusion inc r =
     (if inc ''t_conc''
      then H2 ''2.5. Conclusion'' # map (\<lambda>x. list_para x False 2) (conclusion r)
      else [])"

definition docx_misc :: "(string \<Rightarrow> bool) \<Rightarrow> ReportModel \<Rightarrow> docx_el list" where
  "docx_misc inc r =
     (if inc ''t_misc''
      then [H2 ''2.6. Miscellaneous'', body_para (miscellaneous r) 2]
      else [])"

definition docx_refs :: "(string \<Rightarrow> bool) \<Rightarrow> ReportModel \<Rightarrow> docx_el list" where
  "docx_refs inc r =
     (if inc ''t_refs''
      then H2 ''2.7. References'' # map (\<lambda>x. list_para x False 2) (references r)
      else [])"

definition docx_regulatory :: "(string \<Rightarrow> bool) \<Rightarrow> ReportModel \<Rightarrow> docx_el list" where
  "docx_regulatory inc r =
     (if inc ''sec_reg''
      then [H1 (LF # ''3. Regulatory''),
           H2 ''3.1. Application regulations'', body_para (regulations r) 2,
           H2 ''3.2. Label Requirements'', body_para (label_req r) 2,
           H2 ''3.3. Certification Requirements'', body_para (certification_req r) 2]
      else [])"

definition docx_scale_up :: "(string \<Rightarrow> bool) \<Rightarrow> ReportModel \<Rightarrow> docx_el list" where
  "docx_scale_up inc r =
     (if inc ''sec_scale''
      then [H1 (LF # ''4. Scale Up''), H2 ''4.1. Manufacturing Order''] @
           map (\<lambda>step. list_para step False 2) (manuf_order_steps r) @
             [H2 ''4.2. Formulation Risk'', body_para (formulation_risk_text r) 2,
              H2 ''4.3. Hazards'', body_para (hazards_text r) 2,
              H2 ''4.4. Equipment'', body_para (equipment_text r) 2,
              H2 ''4.5. CAPEX Requirements'', body_para (capex_text r) 2,
              H2 ''4.6. Safety Assessment'', body_para (safety_assess_text r) 2]
      else [])"

definition docx_quality :: "(string \<Rightarrow> bool) \<Rightarrow> ReportModel \<Rightarrow> docx_el list" where
  "docx_quality inc r =
     (if inc ''sec_quality''
      then [H1 (LF # ''5. Quality''),
           H2 ''5.1. Raw Material Sourcing'', body_para (raw_material_sourcing r) 2,
           H2 ''5.2. LIMS Setup'', body_para (lims_setup r) 2,
           H2 ''5.3. Stability Testing'', body_para (stability_testing r) 2,
           H2 ''5.4. Packaging Compatibility'', body_para (packaging_compatibility r) 2]
      else [])"

definition smart_labels :: "(string \<times> string) list" where
  "smart_labels =
     [(''S'', ''Specific''), (''M'', ''Measurable''), (''A'', ''Achievable''),
      (''R'', ''Relevant''), (''T'', ''Time-bound'')]"

definition docx_smart :: "ReportModel \<Rightarrow> docx_el list" where
  "docx_smart r =
     concat (map (\<lambda>(key, label).
                    if strip (or_default (smart_goals r key) []) \<noteq> []
                    then [body_para (label @ '': '' @ or_default (smart_goals r key) []) 3]
                    else [])
                 smart_labels)"

definition docx_emails :: "render_env \<Rightarrow> ReportModel \<Rightarrow> docx_el list" where
  "docx_emails env r =
     (if email_correspondence r \<noteq> []
      then [DocxTable (if known_style env ''Table Grid'' then Some ''Table Grid'' else None)
              ([''Date'', ''Customer Name'', ''Correspondence''] #
               map (\<lambda>e. [date e, customer e, correspondence e]) (email_correspondence r))]
      else [])"

definition docx_commercial :: "render_env \<Rightarrow> (string \<Rightarrow> bool) \<Rightarrow> ReportModel \<Rightarrow> docx_el list" where
  "docx_commercial env inc r =
     (if inc ''sec_commercial''
      then [H1 (LF # ''6. Commercial''),
            H2 ''6.1. Customer Objectives / Problem Statement'', body_para (c_obj_problem r) 2,
            H2 ''6.2. SMART Success Criteria''] @
           docx_smart r @
             [H2 ''6.3. Customer Specifications'', body_para (c_specs r) 2,
              H2 ''6.4. Expected Business Volume'', body_para (c_expected_volume r) 2,
              H2 ''6.5. Packaging Requirement'', body_para (c_packaging_req r) 2,
              H2 ''6.6. Raw Material Restrictions / Preferences'', body_para (c_raw_material_prefs r) 2,
              H2 ''6.7. Sample Needed'', body_para (c_sample_needed r) 2,
              H2 ''6.8. Opportunity Timeline'', body_para (c_opportunity_timeline r) 2,
              H2 ''6.9. Target Application'', body_para (target_application r) 2,
              H2 ''6.10. Customer Feedback'', body_para (customer_feedback r) 2,
              H2 ''6.11. TDS Development'', body_para (tds_development r) 2,
              H2 ''6.12. Email Correspondence''] @
           docx_emails env r
      else [])"

text \<open>\<open>_export_docx\<close>: the body it builds before saving.\<close>

definition export_docx ::
  "render_env \<Rightarrow> (string \<Rightarrow> exn + dialect) \<Rightarrow> (string \<Rightarrow> bool) \<Rightarrow> ReportModel \<Rightarrow> docx_el list" where
  "export_docx env sniff inc r =
     TitlePara (project_title r) #
     docx_general inc r @
     H1 (LF # ''2. Technical Information'') #
     docx_plain inc r @
     docx_objectives inc r @
     docx_methods env inc r @
     docx_results env sniff inc r @
     docx_conclusion inc r @
     docx_misc inc r @
     docx_refs inc r @
     docx_regulatory inc r @
     docx_scale_up inc r @
     docx_quality inc r @
     docx_commercial env inc r"

subsection \<open>Fixed-layout document\<close>

datatype pstyle = Title14 | H1_12 | H2_11 | H3_10 | Body10_H2 | Body10_H3

text \<open>
  The flowables of the story. A list flowable holds the text and style of each of its
  paragraphs and its \<open>bulletType\<close>.
\<close>

datatype flowable =
    Paragraph string pstyle
  | Spacer
  | Table "string list list"
  | ListFlowable "(string \<times> pstyle) list" string
  | RLImage string

definition pdf_general :: "(string \<Rightarrow> bool) \<Rightarrow> ReportModel \<Rightarrow> flowable list" where
  "pdf_general inc r =
     (if inc ''sec_general''
      then [Paragraph ''1. General Information'' H1_12,
            Table
              [[''Start Date'', start_date r],
               [''Report Date'', report_date r],
               [''Assigned By'', assigned_by r],
               [''Bin No'', bin_no r],
               [''Researcher Name'', researcher_name r],
               [''Total Hours'', total_hours r]],
            Spacer]
      else [])"

definition pdf_plain :: "(string \<Rightarrow> bool) \<Rightarrow> ReportModel \<Rightarrow> flowable list" where
  "pdf_plain inc r =
     (if inc ''t_plain''
      then [Paragraph ''2.1. Plain Language Summary'' H2_11,
            Paragraph (replace_nl (plain_summary r)) Body10_H2]
      else [])"

definition pdf_objectives :: "(string \<Rightarrow> bool) \<Rightarrow> ReportModel \<Rightarrow> flowable list" where
  "pdf_objectives inc r =
     (if inc ''t_objectives''
      then Paragraph ''2.2. Objectives'' H2_11 #
           (if objectives r \<noteq> []
            then [ListFlowable (map (\<lambda>ob. (ob, Body10_H2)) (objectives r)) ''1'']
            else [])
      else [])"

definition pdf_trial :: "ReportModel \<Rightarrow> flowable list" where
  "pdf_trial r =
     [Paragraph ''2.3.4. Trial History'' H3_10, Spacer] @
     (if trial_history r \<noteq> []
      then [Table ([''Trial#'', ''Issue'', ''Possible Reasons''] #
                   map (\<lambda>t. [number t, issue t, reasons t]) (trial_history r))]
      else [])"

definition pdf_methods :: "(string \<Rightarrow> bool) \<Rightarrow> ReportModel \<Rightarrow> flowable list" where
  "pdf_methods inc r =
     (if inc ''t_methods''
      then Paragraph ''2.3. Methods'' H2_11 #
           (if inc ''t_rm''
            then [Paragraph ''2.3.1. Raw Materials'' H3_10,
                  ListFlowable (map (\<lambda>x. (x, Body10_H3)) (methods_raw_materials r)) ''bullet'']
            else []) @
           (if inc ''t_ins''
            then [Paragraph ''2.3.2. Instrument'' H3_10,
                  ListFlowable (map (\<lambda>x. (x, Body10_H3)) (methods_instruments r)) ''bullet'']
            else []) @
           (if inc ''t_proc''
            then [Paragraph ''2.3.3. Experimental Procedure'' H3_10,
                  ListFlowable (map (\<lambda>x. (x, Body10_H3)) (methods_procedure r)) ''bullet'']
            else []) @
           (if inc ''t_trial'' then pdf_trial r else [])
      else [])"

definition pdf_image :: "render_env \<Rightarrow> ResultItem \<Rightarrow> string \<Rightarrow> flowable list" where
  "pdf_image env it pth =
     (if pth \<noteq> [] \<and> isfile env pth
      then RLImage pth # (if caption it \<noteq> [] then [Paragraph (caption it) Body10_H3] else [])
      else [])"

definition pdf_result_item ::
  "render_env \<Rightarrow> (string \<Rightarrow> exn + dialect) \<Rightarrow> nat \<Rightarrow> ResultItem \<Rightarrow> flowable list" where
  "pdf_result_item env sniff i it =
     (if kind it = ''text''
      then [Paragraph (''2.4.'' @ str_nat i @ ''. '' @ title it) H3_10,
            Paragraph (replace_nl (content it)) Body10_H3]
      else if kind it = ''table''
      then Paragraph (title it) H3_10 #
           (if table_rows sniff it \<noteq> []
            then [Table (table_rows sniff it)]
            else [Paragraph (replace_nl (content it)) Body10_H3])
      else if kind it = ''image''
      then (if item_images it \<noteq> []
            then (if title it \<noteq> [] then [Paragraph (title it) H3_10] else []) @
                 concat (map (pdf_image env it) (item_images it))
            else [])
      else [])"

fun pdf_result_items ::
  "render_env \<Rightarrow> (string \<Rightarrow> exn + dialect) \<Rightarrow> nat \<Rightarrow> ResultItem list \<Rightarrow> flowable list" where
  "pdf_result_items env sniff i [] = []"
| "pdf_result_items env sniff i (it # its) =
     pdf_result_item env sniff i it @ pdf_result_items env sniff (Suc i) its"

definition pdf_results ::
  "render_env \<Rightarrow> (string \<Rightarrow> exn + dialect) \<Rightarrow> (string \<Rightarrow> bool) \<Rightarrow> ReportModel \<Rightarrow> flowable list" where
  "pdf_results env sniff inc r =
     (if inc ''t_results''
      then Paragraph ''2.4. Results'' H2_11 # pdf_result_items env sniff 1 (results r)
      else [])"

definition pdf_conclusion :: "(string \<Rightarrow> bool) \<Rightarrow> ReportModel \<Rightarrow> flowable list" where
  "pdf_conclusion inc r =
     (if inc ''t_conc''
      then [Paragraph ''2.5. Conclusion'' H2_11,
            ListFlowable (map (\<lambda>x. (x, Body10_H2)) (conclusion r)) ''bullet'']
      else [])"

definition pdf_misc :: "(string \<Rightarrow> bool) \<Rightarrow> ReportModel \<Rightarrow> flowable list" where
  "pdf_misc inc r =
     (if inc ''t_misc''
      then [Paragraph ''2.6. Miscellaneous'' H2_11,
            Paragraph (replace_nl (miscellaneous r)) Body10_H2]
      else [])"

definition pdf_refs :: "(string \<Rightarrow> bool) \<Rightarrow> ReportModel \<Rightarrow> flowable list" where
  "pdf_refs inc r =
     (if inc ''t_refs''
      then [Paragraph ''2.7. References'' H2_11,
            ListFlowable (map (\<lambda>x. (x, Body10_H2)) (references r)) ''bullet'']
      else [])"

definition pdf_regulatory :: "(string \<Rightarrow> bool) \<Rightarrow> ReportModel \<Rightarrow> flowable list" where
  "pdf_regulatory inc r =
     (if inc ''sec_reg''
      then [Paragraph ''3. Regulatory'' H1_12,
           Paragraph ''3.1. Application regulations'' H2_11, Paragraph (replace_nl (regulations r)) Body10_H2,
           Paragraph ''3.2. Label Requirements'' H2_11, Paragraph (replace_nl (label_req r)) Body10_H2,
           Paragraph ''3.3. Certification Requirements'' H2_11, Paragraph (replace_nl (certification_req r)) Body10_H2]
      else [])"

definition pdf_scale_up :: "(string \<Rightarrow> bool) \<Rightarrow> ReportModel \<Rightarrow> flowable list" where
  "pdf_scale_up inc r =
     (if inc ''sec_scale''
      then [Paragraph ''4. Scale Up'' H1_12, Paragraph ''4.1. Manufacturing Order'' H2_11] @
           (if manuf_order_steps r \<noteq> []
            then [ListFlowable (map (\<lambda>x. (x, Body10_H2)) (manuf_order_steps r)) ''bullet'']
            else []) @
             [Paragraph ''4.2. Formulation Risk'' H2_11, Paragraph (replace_nl (formulation_risk_text r)) Body10_H2,
              Paragraph ''4.3. Hazards'' H2_11, Paragraph (replace_nl (hazards_text r)) Body10_H2,
              Paragraph ''4.4. Equipment'' H2_11, Paragraph (replace_nl (equipment_text r)) Body10_H2,
              Paragraph ''4.5. CAPEX Requirements'' H2_11, Paragraph (replace_nl (capex_text r)) Body10_H2,
              Paragraph ''4.6. Safety Assessment'' H2_11, Paragraph (replace_nl (safety_assess_text r)) Body10_H2]
      else [])"

definition pdf_quality :: "(string \<Rightarrow> bool) \<Rightarrow> ReportModel \<Rightarrow> flowable list" where
  "pdf_quality inc r =
     (if inc ''sec_quality''
      then [Paragraph ''5. Quality'' H1_12,
           Paragraph ''5.1. Raw Material Sourcing'' H2_11, Paragraph (replace_nl (raw_material_sourcing r)) Body10_H2,
           Paragraph ''5.2. LIMS Setup'' H2_11, Paragraph (replace_nl (lims_setup r)) Body10_H2,
           Paragraph ''5.3. Stability Testing'' H2_11, Paragraph (replace_nl (stability_testing r)) Body10_H2,
           Paragraph ''5.4. Packaging Compatibility'' H2_11, Paragraph (replace_nl (packaging_compatibility r)) Body10_H2]
      else [])"

definition pdf_smart :: "ReportModel \<Rightarrow> flowable list" where
  "pdf_smart r =
     concat (map (\<lambda>(key, label).
                    if strip (or_default (smart_goals r key) []) \<noteq> []
                    then [Paragraph (label @ '': '' @ strip (or_default (smart_goals r key) [])) Body10_H3]
                    else [])
                 smart_labels)"

definition pdf_emails :: "ReportModel \<Rightarrow> flowable list" where
  "pdf_emails r =
     (if email_correspondence r \<noteq> []
      then [Table ([''Date'', ''Customer Name'', ''Correspondence''] #
                   map (\<lambda>e. [date e, customer e, correspondence e]) (email_correspondence r))]
      else [])"

definition pdf_commercial :: "(string \<Rightarrow> bool) \<Rightarrow> ReportModel \<Rightarrow> flowable list" where
  "pdf_commercial inc r =
     (if inc ''sec_commercial''
      then [Paragraph ''6. Commercial'' H1_12,
            Paragraph ''6.1. Customer Objectives / Problem Statement'' H2_11,
            Paragraph (replace_nl (c_obj_problem r)) Body10_H2,
            Paragraph ''6.2. SMART Success Criteria'' H2_11] @
           pdf_smart r @
             [Paragraph ''6.3. Customer Specifications'' H2_11, Paragraph (replace_nl (c_specs r)) Body10_H2,
              Paragraph ''6.4. Expected Business Volume'' H2_11, Paragraph (replace_nl (c_expected_volume r)) Body10_H2,
              Paragraph ''6.5. Packaging Requirement'' H2_11, Paragraph (replace_nl (c_packaging_req r)) Body10_H2,
              Paragraph ''6.6. Raw Material Restrictions / Preferences'' H2_11, Paragraph (replace_nl (c_raw_material_prefs r)) Body10_H2,
              Paragraph ''6.7. Sample Needed'' H2_11, Paragraph (replace_nl (c_sample_needed r)) Body10_H2,
              Paragraph ''6.8. Opportunity Timeline'' H2_11, Paragraph (replace_nl (c_opportunity_timeline r)) Body10_H2,
              Paragraph ''6.9. Target Application'' H2_11, Paragraph (replace_nl (target_application r)) Body10_H2,
              Paragraph ''6.10. Customer Feedback'' H2_11, Paragraph (replace_nl (customer_feedback r)) Body10_H2,
              Paragraph ''6.11. TDS Development'' H2_11, Paragraph (replace_nl (tds_development r)) Body10_H2,
              Paragraph ''6.12. Email Correspondence'' H2_11] @
           pdf_emails r
      else [])"

text \<open>The story that \<open>_export_pdf_basic\<close> builds.\<close>

definition pdf_story ::
  "render_env \<Rightarrow> (string \<Rightarrow> exn + dialect) \<Rightarrow> (string \<Rightarrow> bool) \<Rightarrow> ReportModel \<Rightarrow> flowable list" where
  "pdf_story env sniff inc r =
     [Paragraph (project_title r) Title14, Spacer] @
     pdf_general inc r @
     Paragraph ''2. Technical Information'' H1_12 #
     pdf_plain inc r @
     pdf_objectives inc r @
     pdf_methods inc r @
     pdf_results env sniff inc r @
     pdf_conclusion inc r @
     pdf_misc inc r @
     pdf_refs inc r @
     pdf_regulatory inc r @
     pdf_scale_up inc r @
     pdf_quality inc r @
     pdf_commercial inc r"

text \<open>
  \<open>_export_pdf_basic\<close>: without the layout library an error is shown and nothing is
  built, the result \<open>None\<close>.
\<close>

definition export_pdf_basic ::
  "bool \<Rightarrow> render_env \<Rightarrow> (string \<Rightarrow> exn + dialect) \<Rightarrow> (string \<Rightarrow> bool) \<Rightarrow> ReportModel
   \<Rightarrow> flowable list option" where
  "export_pdf_basic reportlab env sniff inc r =
     (if \<not> reportlab then None else Some (pdf_story env sniff inc r))"

subsection \<open>The texts of a rendering\<close>








subsection \<open>The documents the libraries produce\<close>













section \<open>The result dialog\<close>

text \<open>
  The fields of the dialog when \<open>Save\<close> is pressed: the title entry, the selected kind,
  the text box, the table box, the table style, the files of the image manager and the
  caption entry.
\<close>

record result_form =
  v_title :: string
  v_kind :: string
  txt_text :: string
  txt_table :: string
  v_tbl_style :: string
  mgr_files :: "string list"
  v_caption :: string

text \<open>
  The item that \<open>save\<close> builds. \<open>save_edited_to_temp\<close> copies the files of the image
  manager and returns the paths of the copies; it is a parameter. A field that the
  constructor call does not name takes its default.
\<close>

definition dialog_item ::
  "(string \<Rightarrow> exn + dialect) \<Rightarrow> (string list \<Rightarrow> string list) \<Rightarrow> result_form \<Rightarrow> exn + ResultItem" where
  "dialog_item sniff save_edited_to_temp f =
     (let t = (if strip (v_title f) \<noteq> [] then strip (v_title f) else ''Untitled'') in
      if v_kind f = ''text''
      then Inr \<lparr>title = t, kind = ''text'', content = strip (txt_text f), image_path = None,
                images = [], caption = [], table_data = [], table_style = ''Table Grid''\<rparr>
      else if v_kind f = ''table''
      then (case parse_table_text sniff (strip (txt_table f)) of
              Inl e \<Rightarrow> Inl e
            | Inr data \<Rightarrow>
                Inr \<lparr>title = t, kind = ''table'', content = strip (txt_table f), image_path = None,
                     images = [], caption = [], table_data = data, table_style = v_tbl_style f\<rparr>)
      else Inr \<lparr>title = t, kind = ''image'', content = [], image_path = None,
                images = (if mgr_files f \<noteq> [] then save_edited_to_temp (mgr_files f) else []),
                caption = strip (v_caption f), table_data = [], table_style = ''Table Grid''\<rparr>)"

text \<open>\<open>save\<close>: the item is appended, or replaces the item being edited.\<close>

definition save_result ::
  "(string \<Rightarrow> exn + dialect) \<Rightarrow> (string list \<Rightarrow> string list) \<Rightarrow> result_form
   \<Rightarrow> ResultItem list \<Rightarrow> nat option \<Rightarrow> exn + ResultItem list" where
  "save_result sniff save_edited_to_temp f rs edit_index =
     (case dialog_item sniff save_edited_to_temp f of
        Inl e \<Rightarrow> Inl e
      | Inr item \<Rightarrow>
          (case edit_index of
             None \<Rightarrow> Inr (rs @ [item])
           | Some i \<Rightarrow> if i < length rs then Inr (rs[i := item]) else Inl IndexError))"

text \<open>
  The three content shapes on the fields of the class: an item has text when its content
  is not empty, a table when its table data is not empty, and an image when it has an
  image path or a caption.
\<close>

definition has_text :: "ResultItem \<Rightarrow> bool" where
  "has_text it \<longleftrightarrow> content it \<noteq> []"

definition has_table :: "ResultItem \<Rightarrow> bool" where
  "has_table it \<longleftrightarrow> table_data it \<noteq> []"

definition has_image :: "ResultItem \<Rightarrow> bool" where
  "has_image it \<longleftrightarrow> images it \<noteq> [] \<or> image_path it \<noteq> None \<or> caption it \<noteq> []"

text \<open>
  The invariant in the words of the specification: exactly the shape that the kind
  selects is populated. The content of a table item is its raw pasted text and belongs
  to the table shape.
\<close>

definition spec_one_shape :: "ResultItem \<Rightarrow> bool" where
  "spec_one_shape it \<longleftrightarrow>
     (if kind it = ''text'' then has_text it \<and> \<not> has_table it \<and> \<not> has_image it
      else if kind it = ''table'' then has_table it \<and> \<not> has_image it
      else if kind it = ''image'' then has_image it \<and> \<not> has_text it \<and> \<not> has_table it
      else False)"

text \<open>What the dialog does ensure: the shapes that the kind does not select are empty.\<close>

definition other_shapes_empty :: "ResultItem \<Rightarrow> bool" where
  "other_shapes_empty it \<longleftrightarrow>
     (if kind it = ''text'' then \<not> has_table it \<and> \<not> has_image it
      else if kind it = ''table'' then \<not> has_image it
      else \<not> has_text it \<and> \<not> has_table it)"

section \<open>Generating a report\<close>

text \<open>
  What \<open>_generate\<close> needs from outside the program: which of the optional libraries
  were imported, whether the conversion of the flow document succeeds, the date, the
  path separator and the path functions. The calls that write are taken to succeed.
\<close>

record gen_env =
  document_lib :: bool
  reportlab_lib :: bool
  docx2pdf_lib :: bool
  convert_ok :: bool
  today :: string
  os_sep :: char
  path_join :: "string \<Rightarrow> string \<Rightarrow> string"
  path_dirname :: "string \<Rightarrow> string"

text \<open>What \<open>_generate\<close> does to the outside, in order.\<close>

datatype effect =
    ShowWarning string
  | ShowError string
  | ShowInfo string
  | MakeDirs string
  | SaveDocx string "string option" "string option" "docx_el list"
  | ConvertDocx string string
  | BuildPdf string "string option" "string option" "flowable list"

definition band_image :: "render_env \<Rightarrow> string \<Rightarrow> string option" where
  "band_image env var = (if isfile env (strip var) then Some (strip var) else None)"

text \<open>The direct fixed-layout export as \<open>_generate\<close> sees it.\<close>

definition pdf_basic_effects ::
  "gen_env \<Rightarrow> render_env \<Rightarrow> (string \<Rightarrow> exn + dialect) \<Rightarrow> ui_vars \<Rightarrow> ReportModel \<Rightarrow> string \<Rightarrow> effect list" where
  "pdf_basic_effects g env sniff ui r pdf_path =
     (case export_pdf_basic (reportlab_lib g) env sniff (include_vars ui) r of
        None \<Rightarrow> [ShowError ''reportlab not found'']
      | Some story \<Rightarrow>
          [BuildPdf pdf_path (band_image env (header_path_var ui))
             (band_image env (footer_path_var ui)) story,
           ShowInfo ''PDF saved''])"

text \<open>\<open>_generate\<close>, on the model that \<open>_collect\<close> returned.\<close>

definition generate ::
  "gen_env \<Rightarrow> render_env \<Rightarrow> (string \<Rightarrow> exn + dialect) \<Rightarrow> ui_vars \<Rightarrow> ReportModel \<Rightarrow> effect list" where
  "generate g env sniff ui r =
     (if project_title r = [] then [ShowWarning ''Missing title'']
      else
        (let out_dir = strip (out_dir_var ui);
             base = map (\<lambda>c. if c = os_sep g then CHR ''_'' else c) (strip (project_title r))
                    @ ''_'' @ today g;
             docx_path = path_join g out_dir (base @ ''.docx'');
             pdf_path = path_join g out_dir (base @ ''.pdf'');
             want = export_fmt ui;
             want_docx = (want = ''docx'' \<or> want = ''both'');
             want_pdf = (want = ''pdf'' \<or> want = ''both'')
         in MakeDirs (path_dirname g (path_join g out_dir ''_'')) #
            (if want_docx \<and> \<not> document_lib g then [ShowError ''python-docx not found'']
             else
               (if want_docx
                then [SaveDocx docx_path (band_image env (header_path_var ui))
                        (band_image env (footer_path_var ui))
                        (export_docx env sniff (include_vars ui) r),
                      ShowInfo ''DOCX saved'']
                else []) @
               (if want_pdf
                then (if docx2pdf_lib g \<and> (want_docx \<or> isfile env docx_path)
                      then (if convert_ok g
                            then [ConvertDocx docx_path pdf_path, ShowInfo ''PDF saved'']
                            else pdf_basic_effects g env sniff ui r pdf_path)
                      else pdf_basic_effects g env sniff ui r pdf_path)
                else []))))"

text \<open>The effects that render or write: everything but the dialogs.\<close>

fun writes :: "effect \<Rightarrow> bool" where
  "writes (ShowWarning m) = False"
| "writes (ShowError m) = False"
| "writes (ShowInfo m) = False"
| "writes _ = True"

section \<open>Reading a rendering\<close>

text \<open>
  The texts of the list items of a rendering, split by the kind of list. In the flow
  document an item is a paragraph in the style \<open>List Number\<close> or \<open>List Bullet\<close>; in
  the fixed-layout document a list flowable has the bullet type \<open>1\<close> or \<open>bullet\<close>.
\<close>

fun docx_el_ordered :: "docx_el \<Rightarrow> string list" where
  "docx_el_ordered (ListPara t numbered level) = (if numbered then [t] else [])"
| "docx_el_ordered _ = []"

fun docx_el_unordered :: "docx_el \<Rightarrow> string list" where
  "docx_el_unordered (ListPara t numbered level) = (if numbered then [] else [t])"
| "docx_el_unordered _ = []"

definition docx_ordered :: "docx_el list \<Rightarrow> string list" where
  "docx_ordered els = concat (map docx_el_ordered els)"

definition docx_unordered :: "docx_el list \<Rightarrow> string list" where
  "docx_unordered els = concat (map docx_el_unordered els)"

fun flowable_ordered :: "flowable \<Rightarrow> string list" where
  "flowable_ordered (ListFlowable items bullet_type) =
     (if bullet_type = ''1'' then map fst items else [])"
| "flowable_ordered _ = []"

fun flowable_unordered :: "flowable \<Rightarrow> string list" where
  "flowable_unordered (ListFlowable items bullet_type) =
     (if bullet_type = ''bullet'' then map fst items else [])"
| "flowable_unordered _ = []"

definition pdf_ordered :: "flowable list \<Rightarrow> string list" where
  "pdf_ordered story = concat (map flowable_ordered story)"

definition pdf_unordered :: "flowable list \<Rightarrow> string list" where
  "pdf_unordered story = concat (map flowable_unordered story)"

text \<open>The list fields other than the objectives that a report shows, in document order.\<close>

definition other_list_items :: "(string \<Rightarrow> bool) \<Rightarrow> ReportModel \<Rightarrow> string list" where
  "other_list_items inc r =
     (if inc ''t_methods''
      then (if inc ''t_rm'' then methods_raw_materials r else []) @
           (if inc ''t_ins'' then methods_instruments r else []) @
           (if inc ''t_proc'' then methods_procedure r else [])
      else []) @
     (if inc ''t_conc'' then conclusion r else []) @
     (if inc ''t_refs'' then references r else []) @
     (if inc ''sec_scale'' then manuf_order_steps r else [])"

text \<open>The texts of the level-3 headings of a rendering.\<close>

fun docx_el_h3 :: "docx_el \<Rightarrow> string list" where
  "docx_el_h3 (Heading level t) = (if level = 3 then [t] else [])"
| "docx_el_h3 _ = []"

definition docx_h3 :: "docx_el list \<Rightarrow> string list" where
  "docx_h3 els = concat (map docx_el_h3 els)"

fun flowable_h3 :: "flowable \<Rightarrow> string list" where
  "flowable_h3 (Paragraph t st) = (if st = H3_10 then [t] else [])"
| "flowable_h3 _ = []"

definition pdf_h3 :: "flowable list \<Rightarrow> string list" where
  "pdf_h3 story = concat (map flowable_h3 story)"

text \<open>
  The level-3 heading of the result item at position \<open>n\<close>, counted from 1 over the
  items of every kind: a text item carries the number, a table item is headed by its
  title alone, an image item by its title alone when it has an image and a title.
\<close>

definition result_heading :: "nat \<Rightarrow> ResultItem \<Rightarrow> string list" where
  "result_heading n it =
     (if kind it = ''text'' then [''2.4.'' @ str_nat n @ ''. '' @ title it]
      else if kind it = ''table'' then [title it]
      else if kind it = ''image'' \<and> item_images it \<noteq> [] \<and> title it \<noteq> [] then [title it]
      else [])"

definition result_headings :: "ResultItem list \<Rightarrow> string list" where
  "result_headings its =
     concat (map (\<lambda>(n, it). result_heading n it) (zip [1..<Suc (length its)] its))"

section \<open>Sample inputs\<close>

text \<open>
  A sniffer for trying the functions out: it reports the comma, with the default quote
  character, when the text has a comma, and raises otherwise.
\<close>

definition comma_sniffer :: "string \<Rightarrow> exn + dialect" where
  "comma_sniffer t =
     (if CHR '','' \<in> set t
      then Inr \<lparr>delimiter = CHR '','', quotechar = CHR 0x22, doublequote = True, skipinitialspace = False\<rparr>
      else Inl CsvError)"

text \<open>
  A persisted model with an empty list of steps next to a legacy text, and one with three
  result dictionaries: without the key \<open>images\<close>, with it, and with a null path.
\<close>

definition legacy_rm :: rm_dict where
  "legacy_rm = empty_rm\<lparr>rm_strs := [''manuf_order_text'' \<mapsto> ''mix\<newline> pour \<newline>\<newline>''],
                        rm_lists := [''manuf_order_steps'' \<mapsto> []]\<rparr>"

definition sample_results_rm :: rm_dict where
  "sample_results_rm =
     empty_rm\<lparr>rm_results := Some
       [\<lparr>ri_title = Some ''Photo'', ri_kind = Some ''image'', ri_content = None,
         ri_image_path = Some (Some ''a.png''), ri_images = None, ri_caption = None,
         ri_table_data = None, ri_table_style = None\<rparr>,
        \<lparr>ri_title = Some ''Pair'', ri_kind = Some ''image'', ri_content = None,
         ri_image_path = Some (Some ''old.png''), ri_images = Some [''x.png'', ''y.png''],
         ri_caption = None, ri_table_data = None, ri_table_style = None\<rparr>,
        \<lparr>ri_title = Some ''Note'', ri_kind = Some ''text'', ri_content = Some ''fine'',
         ri_image_path = Some None, ri_images = None, ri_caption = None,
         ri_table_data = None, ri_table_style = None\<rparr>]\<rparr>"

text \<open>
  A rendering environment with no file on disk and every style known, the include-set
  with every key enabled, a report with one table result, a report with one
  manufacturing step, and a list of a table, a text and an image result.
\<close>

definition sample_env :: render_env where
  "sample_env = \<lparr>isfile = (\<lambda>p. False), add_picture_ok = (\<lambda>p. False), known_style = (\<lambda>s. True)\<rparr>"

definition include_all :: "string \<Rightarrow> bool" where
  "include_all k = True"

definition yield_table :: ResultItem where
  "yield_table =
     \<lparr>title = ''Yield'', kind = ''table'', content = ''run,yield'', image_path = None, images = [],
      caption = [], table_data = [[''run'', ''yield''], [''1'', ''92'']], table_style = ''Table Grid''\<rparr>"

definition table_report :: ReportModel where
  "table_report = ReportModel_default\<lparr>project_title := ''Resin'', results := [yield_table]\<rparr>"

definition step_report :: ReportModel where
  "step_report = ReportModel_default\<lparr>project_title := ''Resin'', manuf_order_steps := [''mix'']\<rparr>"

definition mixed_results :: "ResultItem list" where
  "mixed_results =
     [yield_table,
      \<lparr>title = ''Outcome'', kind = ''text'', content = ''stable'', image_path = None, images = [],
       caption = [], table_data = [], table_style = ''Table Grid''\<rparr>,
      \<lparr>title = ''Sample'', kind = ''image'', content = [], image_path = None, images = [''s.png''],
       caption = ''after cure'', table_data = [], table_style = ''Table Grid''\<rparr>]"








text \<open>
  A generation environment, the variables of a form, two dialog forms (a text item with
  an empty box, a table item with leftovers in the other fields) and a persisted result
  dictionary with every shape filled.
\<close>

definition sample_gen_env :: gen_env where
  "sample_gen_env =
     \<lparr>document_lib = True, reportlab_lib = True, docx2pdf_lib = False, convert_ok = False,
      today = ''2025-01-31'', os_sep = CHR ''/'',
      path_join = (\<lambda>a b. a @ ''/'' @ b), path_dirname = (\<lambda>p. ''reports'')\<rparr>"

definition sample_ui :: ui_vars where
  "sample_ui =
     \<lparr>header_path_var = [], footer_path_var = [], logo_path_var = [], out_dir_var = ''reports'',
      export_fmt = ''both'', include_vars = include_all\<rparr>"

definition empty_text_form :: result_form where
  "empty_text_form =
     \<lparr>v_title = ''Remark'', v_kind = ''text'', txt_text = [], txt_table = [],
      v_tbl_style = ''Table Grid'', mgr_files = [], v_caption = []\<rparr>"

definition table_form :: result_form where
  "table_form =
     \<lparr>v_title = '' Yield '', v_kind = ''table'', txt_text = ''stale'', txt_table = ''run  yield'',
      v_tbl_style = ''Light Grid'', mgr_files = [''p.png''], v_caption = ''old''\<rparr>"

definition mixed_dict :: result_dict where
  "mixed_dict =
     \<lparr>ri_title = Some ''Mixed'', ri_kind = Some ''text'', ri_content = Some ''words'',
      ri_image_path = Some None, ri_images = Some [''p.png''], ri_caption = Some ''photo'',
      ri_table_data = Some [[''a'', ''b'']], ri_table_style = Some ''Table Grid''\<rparr>"


section \<open>Properties of table-text inference\<close>

lemma re_split_no_run: "\<not> has_ws_run s \<Longrightarrow> re_split_ws2_from cur s = [cur @ s]"
proof (induction s arbitrary: cur)
  case Nil
  then show ?case by simp
next
  case (Cons c cs)
  then show ?case by (cases cs) auto
qed

lemma split_ws_row_no_run: "\<not> has_ws_run (strip ln) \<Longrightarrow> split_ws_row ln = [strip ln]"
  by (simp add: split_ws_row_def re_split_ws2_def re_split_no_run)

lemma map_split_ws_row_no_run:
  "list_all (\<lambda>ln. \<not> has_ws_run (strip ln)) lns \<Longrightarrow> map split_ws_row lns = map (\<lambda>ln. [strip ln]) lns"
  by (induction lns) (simp_all add: split_ws_row_no_run)

lemma parse_table_text_cases:
  "parse_table_text sniff text =
     (if strip_chars [LF] text = [] then Inr []
      else case sniff_rows sniff (strip_chars [LF] text) of
             Inr (Some rows) \<Rightarrow> Inr rows
           | _ \<Rightarrow> if TAB \<in> set (strip_chars [LF] text)
                   then Inr (map (\<lambda>ln. map strip (split_on TAB ln)) (splitlines (strip_chars [LF] text)))
                   else Inr (map split_ws_row (splitlines (strip_chars [LF] text))))"
  by (simp add: parse_table_text_def Let_def)


lemmas reader_simps = parse_reset_def parse_process_char_def start_field_def parse_add_char_def
  parse_save_field_def field_limit_def

lemma feed_in_field:
  assumes "rd_state rd = IN_FIELD" "delimiter d \<notin> set cs" "LF \<notin> set cs" "CR \<notin> set cs"
    and "length (rd_field rd) + length cs \<le> field_limit"
  shows "feed_line d rd cs =
         Inr \<lparr>rd_fields = rd_fields rd @ [rd_field rd @ cs], rd_field = [], rd_state = START_RECORD\<rparr>"
  using assms
proof (induction cs arbitrary: rd)
  case Nil
  then show ?case by (simp add: parse_process_char_def parse_save_field_def)
next
  case (Cons c cs)
  have step: "parse_process_char d rd (Some c) = Inr (rd\<lparr>rd_field := rd_field rd @ [c]\<rparr>)"
    using Cons.prems by (auto simp: parse_process_char_def parse_add_char_def)
  have "feed_line d (rd\<lparr>rd_field := rd_field rd @ [c]\<rparr>) cs =
        Inr \<lparr>rd_fields = rd_fields rd @ [(rd_field rd @ [c]) @ cs], rd_field = [], rd_state = START_RECORD\<rparr>"
    using Cons.IH [of "rd\<lparr>rd_field := rd_field rd @ [c]\<rparr>"] Cons.prems by simp
  with step show ?case by simp
qed

lemma feed_single_field:
  assumes "single_field_line d ln"
  shows "feed_line d parse_reset ln = Inr \<lparr>rd_fields = [ln], rd_field = [], rd_state = START_RECORD\<rparr>"
proof (cases ln)
  case Nil
  with assms show ?thesis by (simp add: single_field_line_def)
next
  case (Cons c cs)
  have first: "parse_process_char d parse_reset (Some c) =
               Inr \<lparr>rd_fields = [], rd_field = [c], rd_state = IN_FIELD\<rparr>"
    using assms Cons by (auto simp: single_field_line_def reader_simps)
  have "feed_line d \<lparr>rd_fields = [], rd_field = [c], rd_state = IN_FIELD\<rparr> cs =
        Inr \<lparr>rd_fields = [c # cs], rd_field = [], rd_state = START_RECORD\<rparr>"
    using assms Cons
      feed_in_field [of "\<lparr>rd_fields = [], rd_field = [c], rd_state = IN_FIELD\<rparr>" d cs]
    by (simp add: single_field_line_def)
  with first Cons show ?thesis by simp
qed

lemma reader_single_fields:
  "list_all (single_field_line d) lns \<Longrightarrow> csv_reader d parse_reset lns = Inr (map (\<lambda>ln. [ln]) lns)"
proof (induction lns)
  case Nil
  then show ?case by (simp add: parse_reset_def)
next
  case (Cons ln lns)
  then show ?case by (simp add: feed_single_field)
qed

lemma sniff_rows_single_fields:
  assumes "sniff txt = Inr d" "list_all (single_field_line d) (splitlines txt)"
  shows "sniff_rows sniff txt = Inr None"
proof -
  have "\<not> list_ex (\<lambda>r. length r > 1) (map (\<lambda>ln. [ln]) (splitlines txt))"
    by (simp add: list_ex_iff)
  with assms show ?thesis
    by (simp add: sniff_rows_def reader_single_fields)
qed

lemmas line_simps = strip_chars_def splitlines_def is_linebreak_def

lemma sniffed_ok_Inr:
  "sniffed_ok (Inr d) \<longleftrightarrow>
     (delimiter d = TAB \<or> delimiter d = CHR '','' \<or> delimiter d = CHR '';'') \<and>
     (quotechar d = CHR 0x22 \<or> quotechar d = CHR 0x27)"
  by (simp add: sniffed_ok_def)

lemma reader_comma_example:
  assumes "delimiter d = CHR '',''" "quotechar d = CHR 0x22 \<or> quotechar d = CHR 0x27"
  shows "csv_reader d parse_reset [''a,b,c'', ''1,2,3''] =
         Inr [[''a'', ''b'', ''c''], [''1'', ''2'', ''3'']]"
  using assms(2)
proof
  assume "quotechar d = CHR 0x22"
  with assms(1) show ?thesis by (simp add: reader_simps)
next
  assume "quotechar d = CHR 0x27"
  with assms(1) show ?thesis by (simp add: reader_simps)
qed

lemma reader_tab_example:
  assumes "delimiter d = TAB" "quotechar d = CHR 0x22 \<or> quotechar d = CHR 0x27"
  shows "csv_reader d parse_reset [[CHR ''a'', TAB, CHR ''b''], [CHR ''1'', TAB, CHR ''2'']] =
         Inr [[''a'', ''b''], [''1'', ''2'']]"
  using assms(2)
proof
  assume "quotechar d = CHR 0x22"
  with assms(1) show ?thesis by (simp add: reader_simps)
next
  assume "quotechar d = CHR 0x27"
  with assms(1) show ?thesis by (simp add: reader_simps)
qed

lemma comma_example:
  assumes "sniff ''a,b,c\<newline>1,2,3'' = Inr d" "delimiter d = CHR '',''"
    and "sniffed_ok (sniff ''a,b,c\<newline>1,2,3'')"
  shows "parse_table_text sniff ''a,b,c\<newline>1,2,3'' =
         Inr [[''a'', ''b'', ''c''], [''1'', ''2'', ''3'']]"
proof -
  have stripped: "strip_chars [LF] ''a,b,c\<newline>1,2,3'' = ''a,b,c\<newline>1,2,3''"
    and lns: "splitlines ''a,b,c\<newline>1,2,3'' = [''a,b,c'', ''1,2,3'']"
    by (simp_all add: line_simps)
  have q: "quotechar d = CHR 0x22 \<or> quotechar d = CHR 0x27"
    using assms(1,3) by (simp add: sniffed_ok_Inr)
  have "sniff_rows sniff ''a,b,c\<newline>1,2,3'' =
        Inr (Some (map (map strip) [[''a'', ''b'', ''c''], [''1'', ''2'', ''3'']]))"
    unfolding sniff_rows_def lns using assms(1) reader_comma_example [OF assms(2) q] by simp
  then have "sniff_rows sniff ''a,b,c\<newline>1,2,3'' =
        Inr (Some [[''a'', ''b'', ''c''], [''1'', ''2'', ''3'']])"
    by (simp add: strip_def is_space_def)
  then show ?thesis
    unfolding parse_table_text_cases stripped by simp
qed

lemma tab_example:
  assumes "sniffed_ok (sniff [CHR ''a'', TAB, CHR ''b'', LF, CHR ''1'', TAB, CHR ''2''])"
  shows "parse_table_text sniff [CHR ''a'', TAB, CHR ''b'', LF, CHR ''1'', TAB, CHR ''2''] =
         Inr [[''a'', ''b''], [''1'', ''2'']]"
proof -
  let ?t = "[CHR ''a'', TAB, CHR ''b'', LF, CHR ''1'', TAB, CHR ''2'']"
  have stripped: "strip_chars [LF] ?t = ?t"
    and lns: "splitlines ?t = [[CHR ''a'', TAB, CHR ''b''], [CHR ''1'', TAB, CHR ''2'']]"
    by (simp_all add: line_simps)
  have fallback: "map (\<lambda>ln. map strip (split_on TAB ln)) (splitlines ?t) = [[''a'', ''b''], [''1'', ''2'']]"
    unfolding lns by (simp add: strip_def is_space_def)
  show ?thesis
  proof (cases "sniff ?t")
    case (Inl e)
    then have "sniff_rows sniff ?t = Inl e" by (simp add: sniff_rows_def)
    then show ?thesis unfolding parse_table_text_cases stripped using fallback by simp
  next
    case (Inr d)
    with assms have ok: "sniffed_ok (Inr d)" by simp
    then have q: "quotechar d = CHR 0x22 \<or> quotechar d = CHR 0x27"
      by (simp add: sniffed_ok_Inr)
    show ?thesis
    proof (cases "delimiter d = TAB")
      case True
      have "sniff_rows sniff ?t = Inr (Some (map (map strip) [[''a'', ''b''], [''1'', ''2'']]))"
        unfolding sniff_rows_def lns using Inr reader_tab_example [OF True q] by simp
      then have "sniff_rows sniff ?t = Inr (Some [[''a'', ''b''], [''1'', ''2'']])"
        by (simp add: strip_def is_space_def)
      then show ?thesis unfolding parse_table_text_cases stripped by simp
    next
      case False
      with ok have "list_all (single_field_line d) (splitlines ?t)"
        unfolding lns by (auto simp: sniffed_ok_Inr single_field_line_def field_limit_def)
      then have "sniff_rows sniff ?t = Inr None"
        using Inr by (rule sniff_rows_single_fields [rotated])
      then show ?thesis unfolding parse_table_text_cases stripped using fallback by simp
    qed
  qed
qed

lemma whitespace_example:
  assumes "sniffed_ok (sniff ''Name      Score\<newline>Ada       10'')"
  shows "parse_table_text sniff ''Name      Score\<newline>Ada       10'' =
         Inr [[''Name'', ''Score''], [''Ada'', ''10'']]"
proof -
  let ?t = "''Name      Score\<newline>Ada       10''"
  have stripped: "strip_chars [LF] ?t = ?t"
    and lns: "splitlines ?t = [''Name      Score'', ''Ada       10'']"
    and notab: "TAB \<notin> set ?t"
    by (simp_all add: line_simps)
  have fallback: "map split_ws_row (splitlines ?t) = [[''Name'', ''Score''], [''Ada'', ''10'']]"
    unfolding lns by (simp add: split_ws_row_def re_split_ws2_def strip_def is_space_def)
  have "sniff_rows sniff ?t = Inr None \<or> (\<exists>e. sniff_rows sniff ?t = Inl e)"
  proof (cases "sniff ?t")
    case (Inl e)
    then show ?thesis by (simp add: sniff_rows_def)
  next
    case (Inr d)
    with assms have "list_all (single_field_line d) (splitlines ?t)"
      unfolding lns by (auto simp: sniffed_ok_Inr single_field_line_def field_limit_def)
    then have "sniff_rows sniff ?t = Inr None"
      using Inr by (rule sniff_rows_single_fields [rotated])
    then show ?thesis by simp
  qed
  then show ?thesis
    unfolding parse_table_text_cases stripped using fallback notab by auto
qed

text \<open>
  C4. The three examples of delimiter priority. The sniffer is the library's: the first
  example holds when it reports the comma on that text; the second and third hold for
  every outcome of the sniffer, an exception included.
\<close>

theorem parse_table_text_delimiter_priority:
  assumes "sniff ''a,b,c\<newline>1,2,3'' = Inr d" and "delimiter d = CHR '',''"
    and "sniffed_ok (sniff ''a,b,c\<newline>1,2,3'')"
    and "sniffed_ok (sniff [CHR ''a'', TAB, CHR ''b'', LF, CHR ''1'', TAB, CHR ''2''])"
    and "sniffed_ok (sniff ''Name      Score\<newline>Ada       10'')"
  shows "parse_table_text sniff ''a,b,c\<newline>1,2,3'' =
           Inr [[''a'', ''b'', ''c''], [''1'', ''2'', ''3'']] \<and>
         parse_table_text sniff [CHR ''a'', TAB, CHR ''b'', LF, CHR ''1'', TAB, CHR ''2''] =
           Inr [[''a'', ''b''], [''1'', ''2'']] \<and>
         parse_table_text sniff ''Name      Score\<newline>Ada       10'' =
           Inr [[''Name'', ''Score''], [''Ada'', ''10'']]"
  using comma_example [of sniff d] tab_example [of sniff] whitespace_example [of sniff] assms
  by simp

theorem parse_table_text_delimiter_priority_witness:
  "parse_table_text comma_sniffer ''a,b,c\<newline>1,2,3'' =
     Inr [[''a'', ''b'', ''c''], [''1'', ''2'', ''3'']] \<and>
   parse_table_text comma_sniffer [CHR ''a'', TAB, CHR ''b'', LF, CHR ''1'', TAB, CHR ''2''] =
     Inr [[''a'', ''b''], [''1'', ''2'']] \<and>
   parse_table_text comma_sniffer ''Name      Score\<newline>Ada       10'' =
     Inr [[''Name'', ''Score''], [''Ada'', ''10'']]"
  using parse_table_text_delimiter_priority
    [of comma_sniffer "\<lparr>delimiter = CHR '','', quotechar = CHR 0x22, doublequote = True, skipinitialspace = False\<rparr>"]
  by (simp add: comma_sniffer_def sniffed_ok_def)

text \<open>
  C5. For every text and every behaviour of the sniffer, \<open>parse_table_text\<close> returns
  a grid and raises nothing. When the \<open>try\<close> block raises, the result is the one of
  the tab strategy if the text has a tab and of the whitespace strategy otherwise; when
  in addition no line has a run of two whitespace characters, every line is one cell.
\<close>

theorem parse_table_text_never_raises:
  "(\<exists>grid. parse_table_text sniff text = Inr grid) \<and>
   (\<forall>e. strip_chars [LF] text \<noteq> [] \<and> sniff_rows sniff (strip_chars [LF] text) = Inl e \<longrightarrow>
      parse_table_text sniff text =
        (if TAB \<in> set (strip_chars [LF] text)
         then Inr (map (\<lambda>ln. map strip (split_on TAB ln)) (splitlines (strip_chars [LF] text)))
         else Inr (map split_ws_row (splitlines (strip_chars [LF] text))))) \<and>
   (\<forall>e. strip_chars [LF] text \<noteq> [] \<and> sniff_rows sniff (strip_chars [LF] text) = Inl e \<and>
        TAB \<notin> set (strip_chars [LF] text) \<and>
        list_all (\<lambda>ln. \<not> has_ws_run (strip ln)) (splitlines (strip_chars [LF] text)) \<longrightarrow>
      parse_table_text sniff text = Inr (map (\<lambda>ln. [strip ln]) (splitlines (strip_chars [LF] text))))"
proof (intro conjI allI impI)
  show "\<exists>grid. parse_table_text sniff text = Inr grid"
    by (simp add: parse_table_text_cases split: sum.split option.split)
next
  fix e
  assume "strip_chars [LF] text \<noteq> [] \<and> sniff_rows sniff (strip_chars [LF] text) = Inl e"
  then show "parse_table_text sniff text =
        (if TAB \<in> set (strip_chars [LF] text)
         then Inr (map (\<lambda>ln. map strip (split_on TAB ln)) (splitlines (strip_chars [LF] text)))
         else Inr (map split_ws_row (splitlines (strip_chars [LF] text))))"
    by (simp add: parse_table_text_cases)
next
  fix e
  assume "strip_chars [LF] text \<noteq> [] \<and> sniff_rows sniff (strip_chars [LF] text) = Inl e \<and>
        TAB \<notin> set (strip_chars [LF] text) \<and>
        list_all (\<lambda>ln. \<not> has_ws_run (strip ln)) (splitlines (strip_chars [LF] text))"
  then show "parse_table_text sniff text = Inr (map (\<lambda>ln. [strip ln]) (splitlines (strip_chars [LF] text)))"
    by (simp add: parse_table_text_cases map_split_ws_row_no_run)
qed


theorem parse_table_text_never_raises_witness:
  "parse_table_text (\<lambda>t. Inl CsvError) ''x y\<newline>z;w\<newline>'' = Inr [[''x y''], [''z;w'']]"
  using parse_table_text_never_raises [of "\<lambda>t. Inl CsvError" "''x y\<newline>z;w\<newline>''"]
  by (simp add: strip_chars_def sniff_rows_def splitlines_def is_linebreak_def strip_def is_space_def
        split_ws_row_def re_split_ws2_def)

section \<open>Properties of persistence\<close>

lemma traverse_TrialRow: "traverse TrialRow_init (map asdict_TrialRow xs) = Inr xs"
  by (induction xs) (simp_all add: TrialRow_init_def asdict_TrialRow_def)

lemma traverse_EmailEntry: "traverse EmailEntry_init (map asdict_EmailEntry xs) = Inr xs"
  by (induction xs) (simp_all add: EmailEntry_init_def asdict_EmailEntry_def)

lemma backcompat_asdict: "images_backcompat (asdict_ResultItem x) = asdict_ResultItem x"
  by (simp add: images_backcompat_def asdict_ResultItem_def)

lemma backcompat_o_asdict: "images_backcompat \<circ> asdict_ResultItem = asdict_ResultItem"
  by (rule ext) (simp add: backcompat_asdict)

lemma ResultItem_init_asdict: "ResultItem_init (asdict_ResultItem x) = Inr x"
  by (simp add: ResultItem_init_def asdict_ResultItem_def or_default_def)

lemma traverse_ResultItem: "traverse ResultItem_init (map asdict_ResultItem xs) = Inr xs"
  by (induction xs) (simp_all add: ResultItem_init_asdict)

lemma mo_steps_asdict: "mo_steps (asdict_ReportModel r) = manuf_order_steps r"
  by (simp add: mo_steps_def get_list_def get_str_def or_default_def asdict_ReportModel_def)

lemma build_asdict:
  "build_model (asdict_ReportModel r) (trial_history r) (results r) (email_correspondence r) = r"
  unfolding build_model_def
  by (simp add: get_str_def get_list_def or_default_def asdict_ReportModel_def mo_steps_def)

lemma build_model_sel:
  "manuf_order_steps (build_model rm ths ris es) = mo_steps rm"
  "results (build_model rm ths ris es) = ris"
  "trial_history (build_model rm ths ris es) = ths"
  "email_correspondence (build_model rm ths ris es) = es"
  by (simp_all add: build_model_def)

lemma load_report_model_Inr:
  assumes "load_report_model rm = Inr r"
  obtains ths ris es where
    "traverse TrialRow_init (or_default (rm_trial_history rm) []) = Inr ths"
    "traverse ResultItem_init (map images_backcompat (or_default (rm_results rm) [])) = Inr ris"
    "traverse EmailEntry_init (or_default (rm_email_correspondence rm) []) = Inr es"
    "r = build_model rm ths ris es"
  using assms unfolding load_report_model_def Let_def
  by (auto split: sum.splits)

lemma load_asdict: "load_report_model (asdict_ReportModel r) = Inr r"
proof -
  have parts: "rm_trial_history (asdict_ReportModel r) = Some (map asdict_TrialRow (trial_history r))"
    "rm_results (asdict_ReportModel r) = Some (map asdict_ResultItem (results r))"
    "rm_email_correspondence (asdict_ReportModel r) = Some (map asdict_EmailEntry (email_correspondence r))"
    "rm_smart_goals (asdict_ReportModel r) = Some (smart_goals r)"
    by (simp_all add: asdict_ReportModel_def)
  have lookups: "get_str (asdict_ReportModel r) k d = or_default (rm_strs (asdict_ReportModel r) k) d"
    "get_list (asdict_ReportModel r) k = or_default (rm_lists (asdict_ReportModel r) k) []" for k d
    by (simp_all add: get_str_def get_list_def)
  show ?thesis
    unfolding load_report_model_def Let_def parts
    by (simp add: or_default_def backcompat_o_asdict traverse_TrialRow traverse_ResultItem
          traverse_EmailEntry build_asdict)
qed


text \<open>
  C6. Serialising a model with \<open>_to_dict\<close> and loading the result with
  \<open>_load_from_dict\<close> succeeds and gives back the objectives, the trial history, the
  result items and the email correspondence in their order and with their content; it
  gives back the whole model.
\<close>

theorem roundtrip_preserves_lists:
  "\<exists>r' ui'. load_from_dict ui0 (to_dict ui r) = Inr (r', ui') \<and>
      objectives r' = objectives r \<and>
      trial_history r' = trial_history r \<and>
      results r' = results r \<and>
      email_correspondence r' = email_correspondence r \<and>
      r' = r"
  by (simp add: load_from_dict_def to_dict_def or_default_def load_asdict Let_def)

lemma load_manuf_order_steps:
  "load_report_model rm = Inr r \<Longrightarrow> manuf_order_steps r = mo_steps rm"
  by (erule load_report_model_Inr) (simp add: build_model_sel)

text \<open>
  C7, as stated, fails: with the list of steps present but empty and a legacy text
  present, the loaded steps are the split legacy text, not the stored empty list.
\<close>

theorem manuf_order_empty_list_counterexample:
  "rm_lists legacy_rm ''manuf_order_steps'' = Some [] \<and>
   map_sum id manuf_order_steps (load_report_model legacy_rm) = Inr [''mix'', ''pour'']"
  by (simp add: legacy_rm_def empty_rm_def load_report_model_def build_model_sel mo_steps_def
        get_list_def get_str_def or_default_def safe_split_lines_def splitlines_def
        is_linebreak_def strip_def is_space_def)

text \<open>
  C7, amended. When the list of steps is absent or empty and the legacy text is present
  and not empty, the loaded steps are \<open>safe_split_lines\<close> of the legacy text: its
  stripped non-blank lines. Otherwise they are the stored list, the empty list when it
  is absent.
\<close>

theorem manuf_order_migration:
  assumes "load_report_model rm = Inr r"
  shows "manuf_order_steps r =
         (if or_default (rm_lists rm ''manuf_order_steps'') [] = [] \<and>
             or_default (rm_strs rm ''manuf_order_text'') [] \<noteq> []
          then safe_split_lines (or_default (rm_strs rm ''manuf_order_text'') [])
          else or_default (rm_lists rm ''manuf_order_steps'') [])"
  using load_manuf_order_steps [OF assms]
  by (simp add: mo_steps_def get_list_def get_str_def)

theorem manuf_order_migration_witness:
  "map_sum id manuf_order_steps
     (load_report_model (empty_rm\<lparr>rm_strs := [''manuf_order_text'' \<mapsto> ''heat\<newline>stir'']\<rparr>)) =
   Inr [''heat'', ''stir'']"
proof -
  obtain r where r: "load_report_model (empty_rm\<lparr>rm_strs := [''manuf_order_text'' \<mapsto> ''heat\<newline>stir'']\<rparr>) = Inr r"
    by (simp add: load_report_model_def empty_rm_def or_default_def)
  from manuf_order_migration [OF r] have "manuf_order_steps r = [''heat'', ''stir'']"
    by (simp add: empty_rm_def or_default_def safe_split_lines_def splitlines_def is_linebreak_def
          strip_def is_space_def)
  with r show ?thesis by simp
qed

lemma traverse_all2: "traverse f xs = Inr ys \<Longrightarrow> list_all2 (\<lambda>x y. f x = Inr y) xs ys"
proof (induction xs arbitrary: ys)
  case Nil
  then show ?case by simp
next
  case (Cons x xs)
  then show ?case by (auto split: sum.splits)
qed

lemma ResultItem_init_images:
  "ResultItem_init ri = Inr it \<Longrightarrow> images it = or_default (ri_images ri) []"
  by (cases "ri_title ri"; cases "ri_kind ri") (auto simp: ResultItem_init_def)

lemma backcompat_images:
  "ri_images (images_backcompat ri) =
     Some (case ri_images ri of
             Some imgs \<Rightarrow> imgs
           | None \<Rightarrow> (case ri_image_path ri of
                        Some (Some p) \<Rightarrow> if p \<noteq> [] then [p] else []
                      | _ \<Rightarrow> []))"
  by (simp add: images_backcompat_def split: option.split)

lemma init_backcompat_images:
  assumes "ResultItem_init (images_backcompat ri) = Inr it"
  shows "images it =
         (case ri_images ri of
            Some imgs \<Rightarrow> imgs
          | None \<Rightarrow> (case ri_image_path ri of
                       Some (Some p) \<Rightarrow> if p \<noteq> [] then [p] else []
                     | _ \<Rightarrow> []))"
  using ResultItem_init_images [OF assms] by (simp add: backcompat_images or_default_def)

lemma load_results:
  "load_report_model rm = Inr r \<Longrightarrow>
   traverse ResultItem_init (map images_backcompat (or_default (rm_results rm) [])) = Inr (results r)"
  by (erule load_report_model_Inr) (simp add: build_model_sel)

text \<open>
  C10. On load, a result dictionary without the key \<open>images\<close> gives an item whose
  images are its legacy \<open>image_path\<close> alone when that is a non-empty string, and no
  image otherwise; a dictionary with the key keeps its list.
\<close>

theorem images_backcompat_on_load:
  assumes "load_report_model rm = Inr r"
  shows "map images (results r) =
         map (\<lambda>ri. case ri_images ri of
                      Some imgs \<Rightarrow> imgs
                    | None \<Rightarrow> (case ri_image_path ri of
                                 Some (Some p) \<Rightarrow> if p \<noteq> [] then [p] else []
                               | _ \<Rightarrow> []))
             (or_default (rm_results rm) [])"
proof -
  have "list_all2 (\<lambda>ri it. ResultItem_init (images_backcompat ri) = Inr it)
          (or_default (rm_results rm) []) (results r)"
    using traverse_all2 [OF load_results [OF assms]] by (simp add: list_all2_map1)
  then show ?thesis
  proof (induction rule: list_all2_induct)
    case Nil
    then show ?case by simp
  next
    case (Cons ri ris it its)
    then show ?case using init_backcompat_images [of ri it] by simp
  qed
qed


theorem images_backcompat_on_load_witness:
  "map_sum id (map images \<circ> results) (load_report_model sample_results_rm) =
   Inr [[''a.png''], [''x.png'', ''y.png''], []]"
proof -
  obtain r where r: "load_report_model sample_results_rm = Inr r"
    by (simp add: load_report_model_def sample_results_rm_def empty_rm_def or_default_def
          images_backcompat_def ResultItem_init_def)
  from images_backcompat_on_load [OF r]
  have "map images (results r) = [[''a.png''], [''x.png'', ''y.png''], []]"
    by (simp add: sample_results_rm_def empty_rm_def or_default_def)
  with r show ?thesis by simp
qed

section \<open>Properties of the renderings\<close>

lemmas docx_el_defs = H1_def H2_def H3_def body_para_def list_para_def

lemma docx_ordered_simps:
  "docx_ordered [] = []"
  "docx_ordered (el # els) = docx_el_ordered el @ docx_ordered els"
  "docx_ordered (xs @ ys) = docx_ordered xs @ docx_ordered ys"
  by (simp_all add: docx_ordered_def)

lemma docx_unordered_simps:
  "docx_unordered [] = []"
  "docx_unordered (el # els) = docx_el_unordered el @ docx_unordered els"
  "docx_unordered (xs @ ys) = docx_unordered xs @ docx_unordered ys"
  by (simp_all add: docx_unordered_def)

lemma pdf_ordered_simps:
  "pdf_ordered [] = []"
  "pdf_ordered (el # els) = flowable_ordered el @ pdf_ordered els"
  "pdf_ordered (xs @ ys) = pdf_ordered xs @ pdf_ordered ys"
  by (simp_all add: pdf_ordered_def)

lemma pdf_unordered_simps:
  "pdf_unordered [] = []"
  "pdf_unordered (el # els) = flowable_unordered el @ pdf_unordered els"
  "pdf_unordered (xs @ ys) = pdf_unordered xs @ pdf_unordered ys"
  by (simp_all add: pdf_unordered_def)

lemma docx_list_items:
  "docx_ordered (map (\<lambda>x. ListPara x True l) xs) = xs"
  "docx_ordered (map (\<lambda>x. ListPara x False l) xs) = []"
  "docx_unordered (map (\<lambda>x. ListPara x True l) xs) = []"
  "docx_unordered (map (\<lambda>x. ListPara x False l) xs) = xs"
  "docx_ordered (map (\<lambda>x. BodyPara x l) xs) = []"
  "docx_unordered (map (\<lambda>x. BodyPara x l) xs) = []"
  by (induction xs) (simp_all add: docx_ordered_simps docx_unordered_simps)

lemma map_fst_pair: "map fst (map (\<lambda>x. (x, st)) xs) = xs"
  by (induction xs) simp_all

lemma docx_image_lists:
  "docx_ordered (concat (map (docx_image env it) ps)) = []"
  "docx_unordered (concat (map (docx_image env it) ps)) = []"
  by (induction ps) (simp_all add: docx_ordered_simps docx_unordered_simps docx_image_def)

lemma pdf_image_lists:
  "pdf_ordered (concat (map (pdf_image env it) ps)) = []"
  "pdf_unordered (concat (map (pdf_image env it) ps)) = []"
  by (induction ps) (simp_all add: pdf_ordered_simps pdf_unordered_simps pdf_image_def)

lemma docx_result_item_lists:
  "docx_ordered (docx_result_item env sniff i it) = []"
  "docx_unordered (docx_result_item env sniff i it) = []"
  by (simp_all add: docx_result_item_def docx_ordered_simps docx_unordered_simps docx_list_items
        docx_image_lists docx_el_defs)

lemma pdf_result_item_lists:
  "pdf_ordered (pdf_result_item env sniff i it) = []"
  "pdf_unordered (pdf_result_item env sniff i it) = []"
  by (simp_all add: pdf_result_item_def pdf_ordered_simps pdf_unordered_simps pdf_image_lists)

lemma docx_result_items_lists:
  "docx_ordered (docx_result_items env sniff i its) = []"
  "docx_unordered (docx_result_items env sniff i its) = []"
  by (induction its arbitrary: i)
     (simp_all add: docx_ordered_simps docx_unordered_simps docx_result_item_lists)

lemma pdf_result_items_lists:
  "pdf_ordered (pdf_result_items env sniff i its) = []"
  "pdf_unordered (pdf_result_items env sniff i its) = []"
  by (induction its arbitrary: i)
     (simp_all add: pdf_ordered_simps pdf_unordered_simps pdf_result_item_lists)

lemma docx_smart_lists: "docx_ordered (docx_smart r) = []" "docx_unordered (docx_smart r) = []"
  by (simp_all add: docx_smart_def smart_labels_def docx_ordered_simps docx_unordered_simps body_para_def)

lemma pdf_smart_lists: "pdf_ordered (pdf_smart r) = []" "pdf_unordered (pdf_smart r) = []"
  by (simp_all add: pdf_smart_def smart_labels_def pdf_ordered_simps pdf_unordered_simps)

lemma docx_ordered_sections:
  "docx_ordered (docx_general inc r) = []"
  "docx_ordered (docx_plain inc r) = []"
  "docx_ordered (docx_objectives inc r) = (if inc ''t_objectives'' then objectives r else [])"
  "docx_ordered (docx_methods env inc r) = []"
  "docx_ordered (docx_results env sniff inc r) = []"
  "docx_ordered (docx_conclusion inc r) = []"
  "docx_ordered (docx_misc inc r) = []"
  "docx_ordered (docx_refs inc r) = []"
  "docx_ordered (docx_regulatory inc r) = []"
  "docx_ordered (docx_scale_up inc r) = []"
  "docx_ordered (docx_quality inc r) = []"
  "docx_ordered (docx_commercial env inc r) = []"
  by (simp_all add: docx_general_def docx_plain_def docx_objectives_def docx_methods_def docx_trial_def
        docx_results_def docx_conclusion_def docx_misc_def docx_refs_def docx_regulatory_def
        docx_scale_up_def docx_quality_def docx_commercial_def docx_emails_def docx_ordered_simps
        docx_list_items docx_result_items_lists docx_smart_lists docx_el_defs)

lemma docx_unordered_sections:
  "docx_unordered (docx_general inc r) = []"
  "docx_unordered (docx_plain inc r) = []"
  "docx_unordered (docx_objectives inc r) = []"
  "docx_unordered (docx_methods env inc r) = (if inc ''t_methods''
      then (if inc ''t_rm'' then methods_raw_materials r else []) @
           (if inc ''t_ins'' then methods_instruments r else []) @
           (if inc ''t_proc'' then methods_procedure r else [])
      else [])"
  "docx_unordered (docx_results env sniff inc r) = []"
  "docx_unordered (docx_conclusion inc r) = (if inc ''t_conc'' then conclusion r else [])"
  "docx_unordered (docx_misc inc r) = []"
  "docx_unordered (docx_refs inc r) = (if inc ''t_refs'' then references r else [])"
  "docx_unordered (docx_regulatory inc r) = []"
  "docx_unordered (docx_scale_up inc r) = (if inc ''sec_scale'' then manuf_order_steps r else [])"
  "docx_unordered (docx_quality inc r) = []"
  "docx_unordered (docx_commercial env inc r) = []"
  by (simp_all add: docx_general_def docx_plain_def docx_objectives_def docx_methods_def docx_trial_def
        docx_results_def docx_conclusion_def docx_misc_def docx_refs_def docx_regulatory_def
        docx_scale_up_def docx_quality_def docx_commercial_def docx_emails_def docx_unordered_simps
        docx_list_items docx_result_items_lists docx_smart_lists docx_el_defs)

lemma pdf_ordered_sections:
  "pdf_ordered (pdf_general inc r) = []"
  "pdf_ordered (pdf_plain inc r) = []"
  "pdf_ordered (pdf_objectives inc r) = (if inc ''t_objectives'' then objectives r else [])"
  "pdf_ordered (pdf_methods inc r) = []"
  "pdf_ordered (pdf_results env sniff inc r) = []"
  "pdf_ordered (pdf_conclusion inc r) = []"
  "pdf_ordered (pdf_misc inc r) = []"
  "pdf_ordered (pdf_refs inc r) = []"
  "pdf_ordered (pdf_regulatory inc r) = []"
  "pdf_ordered (pdf_scale_up inc r) = []"
  "pdf_ordered (pdf_quality inc r) = []"
  "pdf_ordered (pdf_commercial inc r) = []"
  by (simp_all add: pdf_general_def pdf_plain_def pdf_objectives_def pdf_methods_def pdf_trial_def
        pdf_results_def pdf_conclusion_def pdf_misc_def pdf_refs_def pdf_regulatory_def
        pdf_scale_up_def pdf_quality_def pdf_commercial_def pdf_emails_def pdf_ordered_simps
        comp_def pdf_result_items_lists pdf_smart_lists)

lemma pdf_unordered_sections:
  "pdf_unordered (pdf_general inc r) = []"
  "pdf_unordered (pdf_plain inc r) = []"
  "pdf_unordered (pdf_objectives inc r) = []"
  "pdf_unordered (pdf_methods inc r) = (if inc ''t_methods''
      then (if inc ''t_rm'' then methods_raw_materials r else []) @
           (if inc ''t_ins'' then methods_instruments r else []) @
           (if inc ''t_proc'' then methods_procedure r else [])
      else [])"
  "pdf_unordered (pdf_results env sniff inc r) = []"
  "pdf_unordered (pdf_conclusion inc r) = (if inc ''t_conc'' then conclusion r else [])"
  "pdf_unordered (pdf_misc inc r) = []"
  "pdf_unordered (pdf_refs inc r) = (if inc ''t_refs'' then references r else [])"
  "pdf_unordered (pdf_regulatory inc r) = []"
  "pdf_unordered (pdf_scale_up inc r) = (if inc ''sec_scale'' then manuf_order_steps r else [])"
  "pdf_unordered (pdf_quality inc r) = []"
  "pdf_unordered (pdf_commercial inc r) = []"
  by (simp_all add: pdf_general_def pdf_plain_def pdf_objectives_def pdf_methods_def pdf_trial_def
        pdf_results_def pdf_conclusion_def pdf_misc_def pdf_refs_def pdf_regulatory_def
        pdf_scale_up_def pdf_quality_def pdf_commercial_def pdf_emails_def pdf_unordered_simps
        comp_def pdf_result_items_lists pdf_smart_lists)

lemma docx_ordered_export:
  "docx_ordered (export_docx env sniff inc r) = (if inc ''t_objectives'' then objectives r else [])"
  by (simp add: export_docx_def docx_ordered_simps docx_ordered_sections H1_def)

lemma docx_unordered_export:
  "docx_unordered (export_docx env sniff inc r) = other_list_items inc r"
  by (simp add: export_docx_def docx_unordered_simps docx_unordered_sections H1_def
        other_list_items_def)

lemma pdf_ordered_story:
  "pdf_ordered (pdf_story env sniff inc r) = (if inc ''t_objectives'' then objectives r else [])"
  by (simp add: pdf_story_def pdf_ordered_simps pdf_ordered_sections)

lemma pdf_unordered_story:
  "pdf_unordered (pdf_story env sniff inc r) = other_list_items inc r"
  by (simp add: pdf_story_def pdf_unordered_simps pdf_unordered_sections other_list_items_def)


text \<open>
  C3, as stated, fails: a manufacturing-order step is an unordered item in both
  renderings, not an ordered one.
\<close>

theorem list_kinds_counterexample:
  "docx_ordered (export_docx sample_env comma_sniffer include_all step_report) = [] \<and>
   docx_unordered (export_docx sample_env comma_sniffer include_all step_report) = [''mix''] \<and>
   pdf_ordered (pdf_story sample_env comma_sniffer include_all step_report) = [] \<and>
   pdf_unordered (pdf_story sample_env comma_sniffer include_all step_report) = [''mix'']"
  by (simp add: docx_ordered_export docx_unordered_export pdf_ordered_story pdf_unordered_story
        other_list_items_def step_report_def ReportModel_default_def include_all_def)

text \<open>
  C3, amended. In both renderings the ordered list items are exactly the objectives
  (when the objectives are included), and the unordered list items are the raw materials,
  instruments, procedure steps, conclusion lines, references and manufacturing-order
  steps of the included sections, in document order. The numerals are drawn by the
  document libraries and are not part of the model.
\<close>

theorem list_kinds:
  "docx_ordered (export_docx env sniff inc r) = (if inc ''t_objectives'' then objectives r else []) \<and>
   pdf_ordered (pdf_story env sniff inc r) = (if inc ''t_objectives'' then objectives r else []) \<and>
   docx_unordered (export_docx env sniff inc r) = other_list_items inc r \<and>
   pdf_unordered (pdf_story env sniff inc r) = other_list_items inc r"
  by (simp only: docx_ordered_export docx_unordered_export pdf_ordered_story pdf_unordered_story
        simp_thms)

lemma docx_h3_simps:
  "docx_h3 [] = []"
  "docx_h3 (el # els) = docx_el_h3 el @ docx_h3 els"
  "docx_h3 (xs @ ys) = docx_h3 xs @ docx_h3 ys"
  by (simp_all add: docx_h3_def)

lemma pdf_h3_simps:
  "pdf_h3 [] = []"
  "pdf_h3 (el # els) = flowable_h3 el @ pdf_h3 els"
  "pdf_h3 (xs @ ys) = pdf_h3 xs @ pdf_h3 ys"
  by (simp_all add: pdf_h3_def)

lemma docx_h3_body: "docx_h3 (map (\<lambda>x. BodyPara x l) xs) = []"
  by (induction xs) (simp_all add: docx_h3_simps)

lemma docx_h3_images: "docx_h3 (concat (map (docx_image env it) ps)) = []"
  by (induction ps) (simp_all add: docx_h3_simps docx_image_def)

lemma pdf_h3_images: "pdf_h3 (concat (map (pdf_image env it) ps)) = []"
  by (induction ps) (simp_all add: pdf_h3_simps pdf_image_def)

lemma docx_h3_result_item: "docx_h3 (docx_result_item env sniff i it) = result_heading i it"
  by (simp add: docx_result_item_def result_heading_def docx_h3_simps docx_h3_body
        docx_h3_images docx_el_defs)

lemma pdf_h3_result_item: "pdf_h3 (pdf_result_item env sniff i it) = result_heading i it"
  by (simp add: pdf_result_item_def result_heading_def pdf_h3_simps pdf_h3_images)

lemma docx_h3_result_items:
  "docx_h3 (docx_result_items env sniff k its) =
   concat (map (\<lambda>(n, it). result_heading n it) (zip [k..<k + length its] its))"
proof (induction its arbitrary: k)
  case Nil
  then show ?case by (simp add: docx_h3_simps)
next
  case (Cons it its)
  have "[k..<k + length (it # its)] = k # [Suc k..<Suc k + length its]"
    by (subst upt_rec) simp
  then show ?case
    using Cons.IH [of "Suc k"] by (simp add: docx_h3_simps docx_h3_result_item)
qed

lemma pdf_h3_result_items:
  "pdf_h3 (pdf_result_items env sniff k its) =
   concat (map (\<lambda>(n, it). result_heading n it) (zip [k..<k + length its] its))"
proof (induction its arbitrary: k)
  case Nil
  then show ?case by (simp add: pdf_h3_simps)
next
  case (Cons it its)
  have "[k..<k + length (it # its)] = k # [Suc k..<Suc k + length its]"
    by (subst upt_rec) simp
  then show ?case
    using Cons.IH [of "Suc k"] by (simp add: pdf_h3_simps pdf_h3_result_item)
qed

lemma docx_h3_results:
  "docx_h3 (docx_results env sniff inc r) =
   (if inc ''t_results'' then result_headings (results r) else [])"
  using docx_h3_result_items [of env sniff 1 "results r"]
  by (simp add: docx_results_def result_headings_def docx_h3_simps H2_def)

lemma pdf_h3_results:
  "pdf_h3 (pdf_results env sniff inc r) =
   (if inc ''t_results'' then result_headings (results r) else [])"
  using pdf_h3_result_items [of env sniff 1 "results r"]
  by (simp add: pdf_results_def result_headings_def pdf_h3_simps)

lemma str_nat_digits:
  "str_nat (Suc 0) = ''1''" "str_nat (Suc (Suc 0)) = ''2''" "str_nat (Suc (Suc (Suc 0))) = ''3''"
  by (subst str_nat.simps, simp add: digit_char_def)+

text \<open>
  C2, as stated, fails: the first result item, a table titled \<open>Yield\<close>, is headed by
  its title alone in both renderings; the heading carries no sequence number.
\<close>

theorem result_numbering_counterexample:
  "docx_h3 (docx_results sample_env comma_sniffer include_all table_report) = [''Yield''] \<and>
   pdf_h3 (pdf_results sample_env comma_sniffer include_all table_report) = [''Yield'']"
  by (simp add: docx_h3_results pdf_h3_results result_headings_def result_heading_def
        table_report_def yield_table_def include_all_def)

text \<open>
  C2, amended. With the results included, the level-3 headings of the results section
  are, in the stored order of the items and in both renderings: for a text item the
  number of the item followed by its title, the number being the position of the item
  counted from 1 over the items of every kind; for a table item its title alone; for an
  image item its title alone when the item has an image and a title, and no heading
  otherwise.
\<close>

theorem result_headings_in_order:
  "docx_h3 (docx_results env sniff inc r) =
     (if inc ''t_results'' then result_headings (results r) else []) \<and>
   pdf_h3 (pdf_results env sniff inc r) =
     (if inc ''t_results'' then result_headings (results r) else [])"
  by (simp only: docx_h3_results pdf_h3_results simp_thms)

theorem result_headings_in_order_witness:
  "docx_h3 (docx_results sample_env comma_sniffer include_all
      (ReportModel_default\<lparr>results := mixed_results\<rparr>)) =
     [''Yield'', ''2.4.2. Outcome'', ''Sample''] \<and>
   pdf_h3 (pdf_results sample_env comma_sniffer include_all
      (ReportModel_default\<lparr>results := mixed_results\<rparr>)) =
     [''Yield'', ''2.4.2. Outcome'', ''Sample'']"
  using result_headings_in_order
    [of sample_env comma_sniffer include_all "ReportModel_default\<lparr>results := mixed_results\<rparr>"]
  by (simp add: result_headings_def result_heading_def mixed_results_def yield_table_def
        include_all_def item_images_def str_nat_digits upt_conv_Cons)



































section \<open>Properties of generation and of the result dialog\<close>

text \<open>
  C8. With an empty project title \<open>_generate\<close> shows the warning and does nothing
  else: no directory is made and neither exporter runs.
\<close>

theorem empty_title_rejected:
  assumes "project_title r = []"
  shows "generate g env sniff ui r = [ShowWarning ''Missing title''] \<and>
         filter writes (generate g env sniff ui r) = []"
  using assms by (simp add: generate_def)

theorem empty_title_rejected_witness:
  "generate sample_gen_env sample_env comma_sniffer sample_ui ReportModel_default =
     [ShowWarning ''Missing title''] \<and>
   filter writes (generate sample_gen_env sample_env comma_sniffer sample_ui ReportModel_default) = []"
  using empty_title_rejected [of ReportModel_default sample_gen_env sample_env comma_sniffer sample_ui]
  by (simp add: ReportModel_default_def)

lemma generate_titled_makes_dirs:
  "project_title r \<noteq> [] \<Longrightarrow> \<exists>p rest. generate g env sniff ui r = MakeDirs p # rest"
  by (simp add: generate_def Let_def)

text \<open>
  C9, as stated, fails: the constructor accepts a persisted text item that also has a
  table and an image, and the dialog builds a text item with no content; neither item
  has exactly the shape of its kind.
\<close>

theorem shape_not_validated_counterexample:
  "map_sum id spec_one_shape (ResultItem_init mixed_dict) = Inr False \<and>
   map_sum id spec_one_shape (dialog_item comma_sniffer id empty_text_form) = Inr False"
  by (simp add: ResultItem_init_def mixed_dict_def or_default_def spec_one_shape_def has_text_def
        has_table_def has_image_def dialog_item_def empty_text_form_def strip_def is_space_def)

text \<open>
  C9, amended. An item built by the result dialog has the kind text, table or image as
  selected, and the shapes that its kind does not select are empty. The shape that the
  kind selects may be empty as well, and nothing is validated at construction.
\<close>

theorem dialog_item_shapes:
  assumes "dialog_item sniff save_edited_to_temp f = Inr it"
  shows "kind it = (if v_kind f = ''text'' then ''text''
                    else if v_kind f = ''table'' then ''table'' else ''image'') \<and>
         other_shapes_empty it"
  using assms
  by (auto simp: dialog_item_def Let_def other_shapes_empty_def has_text_def has_table_def
        has_image_def split: if_splits sum.splits)

theorem dialog_item_shapes_witness:
  "map_sum id kind (dialog_item comma_sniffer id table_form) = Inr ''table'' \<and>
   map_sum id other_shapes_empty (dialog_item comma_sniffer id table_form) = Inr True"
proof -
  obtain it where it: "dialog_item comma_sniffer id table_form = Inr it"
    using parse_table_text_cases [of comma_sniffer "strip (txt_table table_form)"]
    by (auto simp: dialog_item_def Let_def table_form_def split: sum.splits option.splits if_splits)
  from dialog_item_shapes [OF it] it show ?thesis
    by (simp add: table_form_def)
qed


end
